theory Spec2Isabelle
  imports Complex_Main
begin

section \<open>JavaScript values\<close>

text \<open>
  JavaScript numbers are IEEE 754 doubles. Here a finite double is the real it denotes,
  and \<open>NaN\<close> and the two infinities are values of their own; the sign of zero is not
  modelled. Comparison, \<open>Math.round\<close> and \<open>toFixed\<close> are exact operations on the
  value of a double. An arithmetic operation rounds the exact result to the nearest
  double, ties to even (\<open>fl\<close>), and overflows to an infinity (\<open>fround\<close>).
\<close>

datatype jsnum = NaN | Num real | PosInf | NegInf

text \<open>A value that is a number, \<open>null\<close> or \<open>undefined\<close>.\<close>

datatype jsval = JUndefined | JNull | JNumber jsnum

text \<open>\<open>typeof v === 'number'\<close> (true of \<open>NaN\<close> as well).\<close>

fun typeof_number :: "jsval \<Rightarrow> bool" where
  "typeof_number (JNumber _) = True"
| "typeof_number _ = False"

subsection \<open>Double arithmetic\<close>

text \<open>
  Rounding to the nearest integer, ties to the even one; the exponent of the unit in the
  last place of the doubles around \<open>x\<close> (53 significant bits, subnormal from
  \<open>2^-1022\<close> down); the nearest double to a real, with no bound on the exponent;
  the largest finite double; and rounding with overflow.
\<close>

definition round_half_even :: "real \<Rightarrow> int" where
  "round_half_even y =
     (let f = \<lfloor>y\<rfloor>; r = y - of_int f
      in if r < 1 / 2 then f else if 1 / 2 < r then f + 1 else if even f then f else f + 1)"

definition ulp_exp :: "real \<Rightarrow> int" where
  "ulp_exp x = max (\<lfloor>log 2 \<bar>x\<bar>\<rfloor> - 52) (- 1074)"

definition fl :: "real \<Rightarrow> real" where
  "fl x = (if x = 0 then 0
           else of_int (round_half_even (x / 2 powi ulp_exp x)) * 2 powi ulp_exp x)"

definition max_double :: real where
  "max_double = (2 ^ 53 - 1) * 2 ^ 971"

definition is_double :: "real \<Rightarrow> bool" where
  "is_double x \<longleftrightarrow> fl x = x \<and> \<bar>x\<bar> \<le> max_double"

definition fround :: "real \<Rightarrow> jsnum" where
  "fround x =
     (if max_double < \<bar>fl x\<bar> then (if 0 < x then PosInf else NegInf) else Num (fl x))"

text \<open>The operators \<open>+\<close>, \<open>-\<close> and \<open>*\<close> on numbers.\<close>

fun js_add :: "jsnum \<Rightarrow> jsnum \<Rightarrow> jsnum" where
  "js_add NaN _ = NaN"
| "js_add _ NaN = NaN"
| "js_add PosInf NegInf = NaN"
| "js_add NegInf PosInf = NaN"
| "js_add PosInf _ = PosInf"
| "js_add _ PosInf = PosInf"
| "js_add NegInf _ = NegInf"
| "js_add _ NegInf = NegInf"
| "js_add (Num x) (Num y) = fround (x + y)"

fun js_neg :: "jsnum \<Rightarrow> jsnum" where
  "js_neg NaN = NaN"
| "js_neg (Num x) = Num (- x)"
| "js_neg PosInf = NegInf"
| "js_neg NegInf = PosInf"

definition js_sub :: "jsnum \<Rightarrow> jsnum \<Rightarrow> jsnum" where
  "js_sub a b = js_add a (js_neg b)"

text \<open>The sign of a number that is not \<open>NaN\<close>: \<open>1\<close>, \<open>0\<close> or \<open>-1\<close>.\<close>

fun js_sign :: "jsnum \<Rightarrow> int" where
  "js_sign (Num x) = (if 0 < x then 1 else if x < 0 then - 1 else 0)"
| "js_sign PosInf = 1"
| "js_sign NegInf = - 1"
| "js_sign NaN = 0"

fun js_mul :: "jsnum \<Rightarrow> jsnum \<Rightarrow> jsnum" where
  "js_mul NaN _ = NaN"
| "js_mul _ NaN = NaN"
| "js_mul (Num x) (Num y) = fround (x * y)"
| "js_mul a b =
     (let s = js_sign a * js_sign b
      in if s = 0 then NaN else if 0 < s then PosInf else NegInf)"

text \<open>
  \<open>x / c\<close> for a literal \<open>c\<close> that is a positive finite number, as every divisor in the
  source is.
\<close>

fun js_div_by :: "jsnum \<Rightarrow> real \<Rightarrow> jsnum" where
  "js_div_by (Num x) c = fround (x / c)"
| "js_div_by a c = a"

text \<open>
  \<open>Math.sqrt\<close>: \<open>NaN\<close> below zero, and the nearest double to the root otherwise.
\<close>

fun Math_sqrt :: "jsnum \<Rightarrow> jsnum" where
  "Math_sqrt (Num x) = (if x < 0 then NaN else Num (fl (sqrt x)))"
| "Math_sqrt PosInf = PosInf"
| "Math_sqrt _ = NaN"

text \<open>\<open>Math.PI\<close>, the double nearest to \<open>\<pi>\<close>.\<close>

definition Math_PI :: real where
  "Math_PI = 884279719003555 / 2 ^ 48"

text \<open>
  \<open>Math.sin\<close>, \<open>Math.cos\<close> and \<open>Math.atan2\<close> are implementation-approximated in
  ECMAScript: the doubles they return are those of the engine's library. The library
  is a parameter of what calls it.
\<close>

record libm =
  m_sin :: "jsnum \<Rightarrow> jsnum"
  m_cos :: "jsnum \<Rightarrow> jsnum"
  m_atan2 :: "jsnum \<Rightarrow> jsnum \<Rightarrow> jsnum"

subsection \<open>Decimal rendering of numbers\<close>

definition digit_char :: "nat \<Rightarrow> char" where
  "digit_char d = ''0123456789'' ! d"

function dec_digits :: "nat \<Rightarrow> string" where
  "dec_digits n =
     (if n < 10 then [digit_char n] else dec_digits (n div 10) @ [digit_char (n mod 10)])"
  by pat_completeness auto
termination
  by (relation "measure id") auto

declare dec_digits.simps [simp del]

text \<open>
  \<open>Math.round(x)\<close>: the integer nearest to \<open>x\<close>, a tie going up.
\<close>

definition Math_round :: "real \<Rightarrow> int" where
  "Math_round x = \<lfloor>x + 1 / 2\<rfloor>"

text \<open>
  The string of an integer-valued number inside a template literal (\<open>Number::toString\<close>).
  For a magnitude up to \<open>2^53\<close> JavaScript writes the decimal digits of the integer;
  above that it writes the shortest digits that identify the double, padded with zeros,
  and exponent notation from \<open>10^21\<close> on. Only the first form is modelled.
\<close>

definition Number_toString :: "int \<Rightarrow> string" where
  "Number_toString n =
     (if n < 0 then ''-'' @ dec_digits (nat (- n)) else dec_digits (nat n))"

text \<open>
  \<open>x.toFixed(f)\<close> for a finite \<open>x\<close> of magnitude below \<open>10^21\<close> (ECMAScript
  \<open>Number.prototype.toFixed\<close>): the sign, then the digits of the integer \<open>n\<close> for which
  \<open>n / 10^f\<close> is nearest to \<open>\<bar>x\<bar>\<close> (the larger \<open>n\<close> on a tie), padded with
  zeros to at least \<open>f + 1\<close> digits, with a point before the last \<open>f\<close> digits.
\<close>

definition toFixed :: "nat \<Rightarrow> real \<Rightarrow> string" where
  "toFixed f x0 =
     (let s = (if x0 < 0 then ''-'' else '''');
          x = \<bar>x0\<bar>;
          n = nat \<lfloor>x * 10 ^ f + 1 / 2\<rfloor>;
          m = dec_digits n;
          m' = (if f \<noteq> 0 then
                  (let mz = (if length m \<le> f
                             then replicate (f + 1 - length m) (CHR ''0'') @ m else m);
                       k = length mz
                   in take (k - f) mz @ ''.'' @ drop (k - f) mz)
                else m)
      in s @ m')"

section \<open>utils/distance.js\<close>

definition toRad :: "jsnum \<Rightarrow> jsnum" where
  "toRad d = js_div_by (js_mul d (Num Math_PI)) 180"

text \<open>
  The coordinates are finite doubles. \<open>haversine_a\<close> is the constant \<open>a\<close> of
  \<open>haversineMeters\<close>.
\<close>

definition haversine_a :: "libm \<Rightarrow> real \<Rightarrow> real \<Rightarrow> real \<Rightarrow> real \<Rightarrow> jsnum" where
  "haversine_a lm lat1 lon1 lat2 lon2 =
     (let dLat = toRad (js_sub (Num lat2) (Num lat1));
          dLon = toRad (js_sub (Num lon2) (Num lon1))
      in js_add
           (js_mul (m_sin lm (js_div_by dLat 2)) (m_sin lm (js_div_by dLat 2)))
           (js_mul
              (js_mul
                 (js_mul (m_cos lm (toRad (Num lat1))) (m_cos lm (toRad (Num lat2))))
                 (m_sin lm (js_div_by dLon 2)))
              (m_sin lm (js_div_by dLon 2))))"

definition haversineMeters :: "libm \<Rightarrow> real \<Rightarrow> real \<Rightarrow> real \<Rightarrow> real \<Rightarrow> jsnum" where
  "haversineMeters lm lat1 lon1 lat2 lon2 =
     (let R = Num 6371000;
          a = haversine_a lm lat1 lon1 lat2 lon2;
          c = js_mul (Num 2) (m_atan2 lm (Math_sqrt a) (Math_sqrt (js_sub (Num 1) a)))
      in js_mul R c)"

text \<open>
  \<open>m / 1000\<close> and \<open>m / 1609.344\<close> for a finite \<open>m\<close>; the quotient of a double by
  a number above one does not overflow. The literal \<open>1609.344\<close> denotes the nearest
  double.
\<close>

definition metersToKm :: "real \<Rightarrow> real" where
  "metersToKm m = fl (m / 1000)"

definition metersToMiles :: "real \<Rightarrow> real" where
  "metersToMiles m = fl (m / fl 1609.344)"

text \<open>
  For the infinities: \<open>-Infinity < 1000\<close> holds, \<open>Math.round\<close> keeps it and the
  template literal prints it; \<open>Infinity / 1000\<close> is \<open>Infinity\<close>, which is not below
  10, and \<open>toFixed\<close> prints it by \<open>Number::toString\<close>.
\<close>

fun formatDistance :: "jsval \<Rightarrow> string" where
  "formatDistance JUndefined = ''''"
| "formatDistance JNull = ''''"
| "formatDistance (JNumber NaN) = ''''"
| "formatDistance (JNumber (Num meters)) =
     (if meters < 1000 then Number_toString (Math_round meters) @ '' m''
      else (let km = metersToKm meters
            in toFixed (if km < 10 then 1 else 0) km @ '' km''))"
| "formatDistance (JNumber NegInf) = ''-Infinity m''"
| "formatDistance (JNumber PosInf) = ''Infinity km''"

definition formatDistanceKm :: "jsval \<Rightarrow> string" where
  "formatDistanceKm meters = formatDistance meters"

section \<open>utils/featureFlags.js\<close>

text \<open>
  A JavaScript string is a sequence of UTF-16 code units; \<open>js\<close> writes an ASCII literal
  as one. The argument of \<open>parseFeatureFlags\<close> is either a string or some value that is
  not one (\<open>undefined\<close> when the environment variable is not set).
\<close>

type_synonym jsstring = "nat list"

definition js :: "string \<Rightarrow> jsstring" where
  "js s = map of_char s"

datatype env_value = NotAString | Str jsstring

text \<open>
  The code units that \<open>trim\<close> removes: the white space and line terminators of
  ECMAScript, that is TAB, LF, VT, FF, CR, the space, the no-break space, U+FEFF, the
  line and paragraph separators U+2028 and U+2029, and the other space separators of
  Unicode (U+1680, U+2000 to U+200A, U+202F, U+205F, U+3000).
\<close>

definition is_space :: "nat \<Rightarrow> bool" where
  "is_space c =
     (c = 0x09 \<or> c = 0x0A \<or> c = 0x0B \<or> c = 0x0C \<or> c = 0x0D \<or> c = 0x20 \<or> c = 0xA0 \<or>
      c = 0x1680 \<or> (0x2000 \<le> c \<and> c \<le> 0x200A) \<or> c = 0x2028 \<or> c = 0x2029 \<or>
      c = 0x202F \<or> c = 0x205F \<or> c = 0x3000 \<or> c = 0xFEFF)"

definition trim :: "jsstring \<Rightarrow> jsstring" where
  "trim s = rev (dropWhile is_space (rev (dropWhile is_space s)))"

text \<open>\<open>s.split(sep)\<close> for a separator that matches single code units.\<close>

fun split_on :: "(nat \<Rightarrow> bool) \<Rightarrow> jsstring \<Rightarrow> jsstring list" where
  "split_on sep [] = [[]]"
| "split_on sep (c # cs) =
     (if sep c then [] # split_on sep cs
      else (case split_on sep cs of [] \<Rightarrow> [[c]] | w # ws \<Rightarrow> (c # w) # ws))"

text \<open>
  The object that \<open>parseFeatureFlags\<close> returns, as a map from property names to
  values.
\<close>

type_synonym parsed_flags = "jsstring \<rightharpoonup> bool"

text \<open>
  \<open>flags[k] = b\<close> on the object literal \<open>{}\<close>. The key \<open>__proto__\<close> is the accessor
  inherited from \<open>Object.prototype\<close>, whose setter ignores a boolean: that assignment
  stores nothing.
\<close>

definition assign_flag :: "parsed_flags \<Rightarrow> jsstring \<Rightarrow> bool \<Rightarrow> parsed_flags" where
  "assign_flag flags k b = (if k = js ''__proto__'' then flags else flags(k \<mapsto> b))"

text \<open>\<open>p.split('=').map(s => s.trim())\<close>; the code unit of \<open>=\<close> is 61.\<close>

definition pair_fields :: "jsstring \<Rightarrow> jsstring list" where
  "pair_fields p = map trim (split_on (\<lambda>c. c = 61) p)"

text \<open>
  The body of the loop \<open>for (const p of pairs)\<close>, for one \<open>p\<close>.
  \<open>String.prototype.toLowerCase\<close> is the case mapping of the Unicode version of the
  engine; it is the parameter \<open>toLowerCase\<close>.
\<close>

definition parse_pair :: "(jsstring \<Rightarrow> jsstring) \<Rightarrow> parsed_flags \<Rightarrow> jsstring \<Rightarrow> parsed_flags" where
  "parse_pair toLowerCase flags p =
     (case pair_fields p of
        [] \<Rightarrow> flags
      | [k] \<Rightarrow> (if k = [] then flags else assign_flag flags k True)
      | k # v # _ \<Rightarrow>
          (if k = [] then flags
           else if v = [] then assign_flag flags k True
           else (let lower = toLowerCase v
                 in assign_flag flags k
                      (lower = js ''true'' \<or> lower = js ''1'' \<or> lower = js ''yes''))))"

fun parse_pairs :: "(jsstring \<Rightarrow> jsstring) \<Rightarrow> parsed_flags \<Rightarrow> jsstring list \<Rightarrow> parsed_flags" where
  "parse_pairs toLowerCase flags [] = flags"
| "parse_pairs toLowerCase flags (p # ps) =
     parse_pairs toLowerCase (parse_pair toLowerCase flags p) ps"

text \<open>
  \<open>envString.split(/[;,]/).map(s => s.trim()).filter(Boolean)\<close>; the code units of
  \<open>;\<close> and \<open>,\<close> are 59 and 44.
\<close>

definition flag_pairs :: "jsstring \<Rightarrow> jsstring list" where
  "flag_pairs s =
     filter (\<lambda>x. x \<noteq> []) (map trim (split_on (\<lambda>c. c = 59 \<or> c = 44) s))"

definition parseFeatureFlags :: "(jsstring \<Rightarrow> jsstring) \<Rightarrow> env_value \<Rightarrow> parsed_flags" where
  "parseFeatureFlags toLowerCase envString =
     (case envString of
        NotAString \<Rightarrow> Map.empty
      | Str s \<Rightarrow>
          (if s = [] then Map.empty else parse_pairs toLowerCase Map.empty (flag_pairs s)))"

text \<open>
  What one listing \<open>p\<close> of the environment string says: its key is the text before the
  first \<open>=\<close>, its value (if it has one) the text between the first and the second
  \<open>=\<close>, both trimmed. A listing without a value or with an empty one says \<open>true\<close>;
  one with a value says \<open>true\<close> exactly when the value in lower case is \<open>true\<close>,
  \<open>1\<close> or \<open>yes\<close>. \<open>last_listing k ps\<close> is the last listing of the key \<open>k\<close>.
\<close>

definition pair_key :: "jsstring \<Rightarrow> jsstring" where
  "pair_key p = (case pair_fields p of [] \<Rightarrow> [] | k # _ \<Rightarrow> k)"

definition pair_value :: "jsstring \<Rightarrow> jsstring option" where
  "pair_value p = (case pair_fields p of k # v # _ \<Rightarrow> Some v | _ \<Rightarrow> None)"

definition listed_value :: "(jsstring \<Rightarrow> jsstring) \<Rightarrow> jsstring \<Rightarrow> bool" where
  "listed_value toLowerCase p =
     (case pair_value p of
        None \<Rightarrow> True
      | Some v \<Rightarrow> v = [] \<or> toLowerCase v = js ''true'' \<or> toLowerCase v = js ''1'' \<or>
                  toLowerCase v = js ''yes'')"

definition last_listing :: "jsstring \<Rightarrow> jsstring list \<Rightarrow> jsstring option" where
  "last_listing k ps = find (\<lambda>p. pair_key p = k) (rev ps)"

text \<open>
  The flags object as the service reads it, at a property name written as an ASCII
  literal.
\<close>

type_synonym flags = "string \<rightharpoonup> bool"

definition flags_object :: "parsed_flags \<Rightarrow> flags" where
  "flags_object parsed k = parsed (js k)"

section \<open>services/placesService.js\<close>

record coord =
  lat :: real
  lng :: real

text \<open>
  \<open>p.geometry?.location\<close>, when present, is either a \<open>google.maps.LatLng\<close> (an object
  whose \<open>lat\<close> is a function) or some other truthy value.
\<close>

datatype geo_location = LatLng real real | NotLatLng

record place =
  place_id :: string
  name :: "string option"
  vicinity :: "string option"
  rating :: "real option"
  geometry_location :: "geo_location option"
  location :: "coord option"
  distanceMeters :: jsval
  distanceText :: "string option"
  durationText :: "string option"

text \<open>\<open>a || b\<close> on optional strings: the empty string and \<open>undefined\<close> are falsy.\<close>

definition str_or :: "string option \<Rightarrow> string option \<Rightarrow> string option" where
  "str_or a b = (case a of Some x \<Rightarrow> (if x \<noteq> [] then Some x else b) | None \<Rightarrow> b)"

subsection \<open>Places Nearby Search\<close>

datatype error = PlacesNearbySearchFailed | Thrown | DistanceMatrixFailed

text \<open>
  What the provider does with a nearby search: it throws, or it calls back with
  \<open>results\<close> (\<open>None\<close> when it is not an array) and a status.
\<close>

datatype search_outcome = SearchThrows | SearchCallback "place list option" string

record search_request =
  sr_location :: coord
  sr_radius :: nat

definition searchNearbyGasStations ::
  "(search_request \<Rightarrow> search_outcome) \<Rightarrow> coord \<Rightarrow> nat \<Rightarrow> nat \<Rightarrow> error + place list" where
  "searchNearbyGasStations nearbySearch loc radius limit =
     (case nearbySearch \<lparr>sr_location = loc, sr_radius = radius\<rparr> of
        SearchThrows \<Rightarrow> Inl Thrown
      | SearchCallback results status \<Rightarrow>
          (case results of
             None \<Rightarrow> Inl PlacesNearbySearchFailed
           | Some rs \<Rightarrow>
               (if status \<noteq> ''OK'' then Inl PlacesNearbySearchFailed
                else Inr (take limit rs))))"

subsection \<open>Distance Matrix\<close>

datatype destination = DestLatLng real real | DestAddress "string option"

record dm_distance =
  dist_value :: jsval
  dist_text :: "string option"

record dm_element =
  el_status :: string
  el_distance :: "dm_distance option"
  el_duration_text :: "string option"

text \<open>
  The response: \<open>response.rows?.[0]?.elements || []\<close> reads the elements of the first
  row, and the empty list when \<open>rows\<close>, the row or its \<open>elements\<close> is missing; a missing
  part is the empty list here.
\<close>

record dm_response =
  rows :: "dm_element list list"

datatype dm_outcome = DMThrows | DMCallback "dm_response option" string

record dm_request =
  dm_origin :: coord
  dm_destinations :: "destination list"

definition destination_of :: "place \<Rightarrow> destination" where
  "destination_of p =
     (case geometry_location p of
        Some (LatLng la lo) \<Rightarrow> DestLatLng la lo
      | _ \<Rightarrow>
          (case location p of
             Some c \<Rightarrow> DestLatLng (lat c) (lng c)
           | None \<Rightarrow> DestAddress (str_or (vicinity p) (name p))))"

text \<open>The promise around \<open>getDistanceMatrix\<close>, and the \<open>try\<close> around it.\<close>

definition getDistanceMatrix ::
  "(dm_request \<Rightarrow> dm_outcome) \<Rightarrow> coord \<Rightarrow> place list \<Rightarrow> error + dm_response" where
  "getDistanceMatrix dm origin places =
     (case dm \<lparr>dm_origin = origin, dm_destinations = map destination_of places\<rparr> of
        DMThrows \<Rightarrow> Inl Thrown
      | DMCallback res status \<Rightarrow>
          (case res of
             None \<Rightarrow> Inl DistanceMatrixFailed
           | Some r \<Rightarrow> (if status \<noteq> ''OK'' then Inl DistanceMatrixFailed else Inr r)))"

text \<open>\<open>response.rows?.[0]?.elements || []\<close>.\<close>

definition row_elements :: "dm_response \<Rightarrow> dm_element list" where
  "row_elements response = (case rows response of [] \<Rightarrow> [] | r # _ \<Rightarrow> r)"

text \<open>\<open>distances[idx]\<close>: \<open>undefined\<close> past the end.\<close>

definition element_at :: "dm_element list \<Rightarrow> nat \<Rightarrow> dm_element option" where
  "element_at distances idx = (if idx < length distances then Some (distances ! idx) else None)"

text \<open>The callback of \<open>places.map((p, idx) => ...)\<close> on the Distance Matrix path.\<close>

definition enrich_dm :: "dm_element list \<Rightarrow> place \<Rightarrow> nat \<Rightarrow> place" where
  "enrich_dm distances p idx =
     (let el = element_at distances idx;
          dmMeters = (case el of None \<Rightarrow> JUndefined
                      | Some e \<Rightarrow> (case el_distance e of None \<Rightarrow> JUndefined
                                   | Some d \<Rightarrow> dist_value d));
          dmText = (case el of None \<Rightarrow> None
                    | Some e \<Rightarrow> (case el_distance e of None \<Rightarrow> None
                                 | Some d \<Rightarrow> dist_text d));
          durText = (case el of None \<Rightarrow> None | Some e \<Rightarrow> el_duration_text e)
      in p\<lparr>distanceMeters := (if typeof_number dmMeters then dmMeters else JUndefined),
           distanceText := str_or dmText
              (if typeof_number dmMeters then Some (formatDistance dmMeters) else None),
           durationText := durText\<rparr>)"

text \<open>The callback of \<open>places.map((p) => ...)\<close> on the haversine path.\<close>

definition enrich_haversine :: "libm \<Rightarrow> coord option \<Rightarrow> place \<Rightarrow> place" where
  "enrich_haversine lm origin p =
     (let meters =
            (case origin of
               None \<Rightarrow> JUndefined
             | Some og \<Rightarrow>
                 (case geometry_location p of
                    Some (LatLng la lo) \<Rightarrow>
                      JNumber (haversineMeters lm (lat og) (lng og) la lo)
                  | _ \<Rightarrow>
                      (case location p of
                         Some c \<Rightarrow>
                           JNumber (haversineMeters lm (lat og) (lng og) (lat c) (lng c))
                       | None \<Rightarrow> JUndefined)))
      in p\<lparr>distanceMeters := (if typeof_number meters then meters else JUndefined),
           distanceText := (if typeof_number meters then Some (formatDistance meters)
                            else None)\<rparr>)"

text \<open>\<open>origins[0]\<close>.\<close>

definition first_origin :: "coord list \<Rightarrow> coord option" where
  "first_origin origins = (case origins of [] \<Rightarrow> None | og # _ \<Rightarrow> Some og)"

definition haversine_fallback :: "libm \<Rightarrow> coord list \<Rightarrow> place list \<Rightarrow> place list" where
  "haversine_fallback lm origins places =
     map (enrich_haversine lm (first_origin origins)) places"

definition computeDistancesIfEnabled ::
  "libm \<Rightarrow> (dm_request \<Rightarrow> dm_outcome) \<Rightarrow> coord list \<Rightarrow> place list \<Rightarrow> flags \<Rightarrow>
   place list" where
  "computeDistancesIfEnabled lm dm origins places flags =
     (let enableDM = (flags ''enableDistanceMatrix'' = Some True)
      in if enableDM \<and> length origins > 0 \<and> length places > 0 then
           (case first_origin origins of
              None \<Rightarrow> haversine_fallback lm origins places
            | Some origin \<Rightarrow>
                (case getDistanceMatrix dm origin places of
                   Inr response \<Rightarrow>
                     (let distances = row_elements response
                      in map (\<lambda>(p, idx). enrich_dm distances p idx)
                           (zip places [0 ..< length places]))
                 | Inl _ \<Rightarrow> haversine_fallback lm origins places))
         else haversine_fallback lm origins places)"

section \<open>App.js\<close>

record app_state =
  stations :: "place list"
  listError :: string
  loading :: bool

text \<open>
  \<open>handleStationsUpdate(list, errMsg)\<close>: \<open>list\<close> is \<open>None\<close> when it is not an array,
  \<open>errMsg\<close> is \<open>None\<close> when it is not passed.
\<close>

definition handleStationsUpdate ::
  "place list option \<Rightarrow> string option \<Rightarrow> app_state \<Rightarrow> app_state" where
  "handleStationsUpdate list errMsg a =
     a\<lparr>listError := (case errMsg of Some m \<Rightarrow> m | None \<Rightarrow> []),
       stations := (case list of Some l \<Rightarrow> l | None \<Rightarrow> [])\<rparr>"

section \<open>The component MapView\<close>

datatype animation = BOUNCE

datatype marker_position = AtLocation geo_location | AtCoord coord | NoPosition

text \<open>
  A \<open>google.maps.Marker\<close> object: \<open>mk_map\<close> tells whether it is on the map
  (\<open>setMap(null)\<close> takes it off), \<open>mk_place\<close> is the place its click listener holds.
\<close>

record marker =
  mk_position :: marker_position
  mk_map :: bool
  mk_title :: "string option"
  mk_animation :: "animation option"
  mk_place :: place

text \<open>
  One run of the fetch effect: its closure holds \<open>alive\<close> and the props of that render.
\<close>

record cycle =
  cy_alive :: bool
  cy_center :: coord
  cy_userLocation :: "coord option"
  cy_flags :: flags

text \<open>
  The state the component works on: the state of the application shell (through the
  callbacks \<open>onStationsChanged\<close> and \<open>onLoading\<close>), whether \<open>mapRef.current\<close> is set,
  every marker object constructed so far (a marker's handle is its index in \<open>heap\<close>),
  \<open>markersRef.current\<close>, the runs of the fetch effect, the run whose cleanup is
  registered, and the pending \<open>setTimeout\<close> callbacks of the highlight.
\<close>

record view =
  app :: app_state
  mapRef :: bool
  heap :: "marker list"
  markersRef :: "nat list"
  cycles :: "cycle list"
  cleanup :: "nat option"
  timers :: "nat list"

definition init_view :: view where
  "init_view =
     \<lparr>app = \<lparr>stations = [], listError = [], loading = False\<rparr>,
      mapRef = True, heap = [], markersRef = [], cycles = [], cleanup = None, timers = []\<rparr>"

text \<open>The cleanup \<open>() => { alive = false; }\<close> of the registered run.\<close>

definition run_cleanup :: "view \<Rightarrow> view" where
  "run_cleanup v =
     (case cleanup v of
        None \<Rightarrow> v
      | Some n \<Rightarrow> v\<lparr>cycles := (cycles v)[n := (cycles v ! n)\<lparr>cy_alive := False\<rparr>],
                    cleanup := None\<rparr>)"

text \<open>
  The fetch effect when one of its dependencies has changed: the previous cleanup, then
  the body up to the first \<open>await\<close>. \<open>ready\<close> is \<open>status === 'ready' && google\<close>.
\<close>

definition fetch_effect :: "bool \<Rightarrow> coord option \<Rightarrow> coord option \<Rightarrow> flags \<Rightarrow> view \<Rightarrow> view" where
  "fetch_effect ready center userLocation flags v0 =
     (let v = run_cleanup v0
      in case center of
           None \<Rightarrow> v
         | Some c \<Rightarrow>
             (if \<not> ready \<or> \<not> mapRef v then v
              else v\<lparr>cycles := cycles v @
                       [\<lparr>cy_alive = True, cy_center = c, cy_userLocation = userLocation,
                         cy_flags = flags\<rparr>],
                     cleanup := Some (length (cycles v)),
                     app := (app v)\<lparr>loading := True\<rparr>\<rparr>))"

definition set_marker :: "(marker \<Rightarrow> marker) \<Rightarrow> nat \<Rightarrow> marker list \<Rightarrow> marker list" where
  "set_marker f h hp = hp[h := f (hp ! h)]"

definition new_marker :: "place \<Rightarrow> marker" where
  "new_marker p =
     \<lparr>mk_position = (case geometry_location p of
                       Some l \<Rightarrow> AtLocation l
                     | None \<Rightarrow> (case location p of Some c \<Rightarrow> AtCoord c | None \<Rightarrow> NoPosition)),
      mk_map = True, mk_title = name p, mk_animation = None, mk_place = p\<rparr>"

text \<open>The lines under \<open>// Paint markers\<close>.\<close>

definition paint_markers :: "place list \<Rightarrow> view \<Rightarrow> view" where
  "paint_markers enriched v =
     (let cleared = fold (set_marker (\<lambda>m. m\<lparr>mk_map := False\<rparr>)) (markersRef v) (heap v);
          n = length cleared
      in v\<lparr>heap := cleared @ map new_marker enriched,
           markersRef := [n ..< n + length enriched]\<rparr>)"

definition failure_message :: string where
  "failure_message = ''Failed to load nearby stations. Please try again shortly.''"

text \<open>
  The two awaited calls of \<open>fetchStations\<close>: the nearby search around the center of
  the run, then the enrichment with the user's location of the run as the only origin.
\<close>

definition fetch_and_enrich ::
  "libm \<Rightarrow> cycle \<Rightarrow> (search_request \<Rightarrow> search_outcome) \<Rightarrow> (dm_request \<Rightarrow> dm_outcome) \<Rightarrow>
   error + place list" where
  "fetch_and_enrich lm cy nearbySearch dm =
     (case searchNearbyGasStations nearbySearch (cy_center cy) 5000 50 of
        Inl e \<Rightarrow> Inl e
      | Inr raw \<Rightarrow>
          Inr (computeDistancesIfEnabled lm dm
                 (case cy_userLocation cy of Some u \<Rightarrow> [u] | None \<Rightarrow> [])
                 raw (cy_flags cy)))"

text \<open>
  \<open>fetchStations\<close> of run \<open>n\<close> once the provider has answered: what follows the two
  \<open>await\<close>s in the \<open>try\<close> block, or the \<open>catch\<close> block, and then \<open>finally\<close>.
\<close>

definition fetchStations_resume ::
  "libm \<Rightarrow> nat \<Rightarrow> (search_request \<Rightarrow> search_outcome) \<Rightarrow> (dm_request \<Rightarrow> dm_outcome) \<Rightarrow>
   view \<Rightarrow> view" where
  "fetchStations_resume lm n nearbySearch dm v =
     (if length (cycles v) \<le> n then v
      else
        (let cy = cycles v ! n;
             v' = (case fetch_and_enrich lm cy nearbySearch dm of
                     Inr enriched \<Rightarrow>
                       (if \<not> cy_alive cy then v
                        else paint_markers enriched
                               (v\<lparr>app := handleStationsUpdate (Some enriched) None (app v)\<rparr>))
                   | Inl e \<Rightarrow>
                       (if \<not> cy_alive cy then v
                        else v\<lparr>app := handleStationsUpdate (Some []) (Some failure_message)
                                        (app v)\<rparr>))
         in v'\<lparr>app := (app v')\<lparr>loading := False\<rparr>\<rparr>))"

text \<open>Truthiness of an optional string.\<close>

definition truthy :: "string option \<Rightarrow> bool" where
  "truthy s = (case s of Some x \<Rightarrow> x \<noteq> [] | None \<Rightarrow> False)"

text \<open>The highlight effect, run when \<open>selectedStationId\<close> changes.\<close>

definition highlight_effect :: "bool \<Rightarrow> string option \<Rightarrow> view \<Rightarrow> view" where
  "highlight_effect ready selectedStationId v =
     (if \<not> ready then v
      else
        (let hp = fold (set_marker (\<lambda>m. m\<lparr>mk_animation := None\<rparr>)) (markersRef v) (heap v);
             v1 = v\<lparr>heap := hp\<rparr>
         in if truthy selectedStationId \<and> length (markersRef v) > 0 then
              (case find (\<lambda>h. truthy (mk_title (hp ! h)) \<and> truthy selectedStationId)
                      (markersRef v) of
                 None \<Rightarrow> v1
               | Some match \<Rightarrow>
                   (if mapRef v
                    then v1\<lparr>heap := set_marker (\<lambda>m. m\<lparr>mk_animation := Some BOUNCE\<rparr>) match hp,
                            timers := timers v @ [match]\<rparr>
                    else v1))
            else v1))"

text \<open>A pending \<open>setTimeout(() => match.setAnimation(null), 1400)\<close> fires.\<close>

definition timer_fires :: "view \<Rightarrow> view" where
  "timer_fires v =
     (case timers v of
        [] \<Rightarrow> v
      | h # hs \<Rightarrow> v\<lparr>heap := set_marker (\<lambda>m. m\<lparr>mk_animation := None\<rparr>) h (heap v),
                    timers := hs\<rparr>)"

text \<open>
  What happens to the component, one event at a time: a dependency of the fetch effect
  changes, the provider answers a run, the selection changes, or a timer fires.
\<close>

datatype event =
    DepsChanged bool "coord option" "coord option" flags
  | Resolved nat "search_request \<Rightarrow> search_outcome" "dm_request \<Rightarrow> dm_outcome"
  | SelectionChanged bool "string option"
  | TimerFired

fun step :: "libm \<Rightarrow> view \<Rightarrow> event \<Rightarrow> view" where
  "step lm v (DepsChanged ready center userLocation flags) =
     fetch_effect ready center userLocation flags v"
| "step lm v (Resolved n nearbySearch dm) = fetchStations_resume lm n nearbySearch dm v"
| "step lm v (SelectionChanged ready selectedStationId) =
     highlight_effect ready selectedStationId v"
| "step lm v TimerFired = timer_fires v"

definition run :: "libm \<Rightarrow> view \<Rightarrow> event list \<Rightarrow> view" where
  "run lm v es = foldl (step lm) v es"

section \<open>Notions of the specification\<close>

text \<open>
  The position of a place, as the service reads it: the \<open>LatLng\<close> of its geometry,
  and otherwise its plain \<open>location\<close>.
\<close>

definition place_position :: "place \<Rightarrow> coord option" where
  "place_position p =
     (case geometry_location p of
        Some (LatLng la lo) \<Rightarrow> Some \<lparr>lat = la, lng = lo\<rparr>
      | _ \<Rightarrow> location p)"

text \<open>
  The places painted on the map (one for each tracked marker, in order), the handles of
  the marker objects that are on the map, and the tracked marker of a place identifier.
\<close>

definition painted :: "view \<Rightarrow> place list" where
  "painted v = map (\<lambda>h. mk_place (heap v ! h)) (markersRef v)"

definition on_map :: "view \<Rightarrow> nat list" where
  "on_map v = filter (\<lambda>h. mk_map (heap v ! h)) [0 ..< length (heap v)]"

definition marker_of :: "view \<Rightarrow> string \<Rightarrow> nat option" where
  "marker_of v pid = find (\<lambda>h. place_id (mk_place (heap v ! h)) = pid) (markersRef v)"

text \<open>
  Well-formed marker state: every tracked handle is a constructed marker, and every
  marker on the map is tracked.
\<close>

definition wf_markers :: "view \<Rightarrow> bool" where
  "wf_markers v \<longleftrightarrow>
     list_all (\<lambda>h. h < length (heap v)) (markersRef v) \<and>
     list_all (\<lambda>h. mk_map (heap v ! h) \<longrightarrow> h \<in> set (markersRef v))
       [0 ..< length (heap v)]"

text \<open>
  At most one run is alive, and it is the one whose cleanup is registered: the current
  run.
\<close>

definition one_alive :: "view \<Rightarrow> bool" where
  "one_alive v \<longleftrightarrow>
     list_all (\<lambda>n. cy_alive (cycles v ! n) \<longrightarrow> cleanup v = Some n)
       [0 ..< length (cycles v)]"

text \<open>What a run publishes: the station list and the error of the application, and the markers.\<close>

definition published :: "view \<Rightarrow> place list \<times> string \<times> marker list \<times> nat list" where
  "published v = (stations (app v), listError (app v), heap v, markersRef v)"

fun is_trigger :: "event \<Rightarrow> bool" where
  "is_trigger (DepsChanged _ _ _ _) = True"
| "is_trigger _ = False"

fun resolves :: "nat \<Rightarrow> event \<Rightarrow> bool" where
  "resolves k (Resolved n _ _) = (n = k)"
| "resolves k _ = False"

section \<open>Example data\<close>

definition origin0 :: coord where
  "origin0 = \<lparr>lat = 0, lng = 0\<rparr>"

definition station_a :: place where
  "station_a =
     \<lparr>place_id = ''a'', name = Some ''Alpha Fuel'', vicinity = Some ''1 Main St'',
      rating = None, geometry_location = Some (LatLng 0 0), location = None,
      distanceMeters = JUndefined, distanceText = None, durationText = None\<rparr>"

definition station_b :: place where
  "station_b =
     \<lparr>place_id = ''b'', name = Some ''Beta Gas'', vicinity = None,
      rating = None, geometry_location = None, location = Some \<lparr>lat = 0, lng = 0\<rparr>,
      distanceMeters = JUndefined, distanceText = None, durationText = None\<rparr>"

definition flags_on :: flags where
  "flags_on = [''enableDistanceMatrix'' \<mapsto> True]"

text \<open>
  A provider whose answer is successful as a whole, with a complete first element and a
  second element that carries an error code and no distance.
\<close>

definition dm_partial :: "dm_request \<Rightarrow> dm_outcome" where
  "dm_partial req =
     DMCallback
       (Some \<lparr>rows =
          [[\<lparr>el_status = ''OK'',
             el_distance = Some \<lparr>dist_value = JNumber (Num 1200), dist_text = Some ''1.2 km''\<rparr>,
             el_duration_text = Some ''3 mins''\<rparr>,
            \<lparr>el_status = ''NOT_FOUND'', el_distance = None, el_duration_text = None\<rparr>]]\<rparr>)
       ''OK''"

definition dm_down :: "dm_request \<Rightarrow> dm_outcome" where
  "dm_down req = DMCallback None ''UNKNOWN_ERROR''"

text \<open>
  Two more providers that fail: one throws, the other answers with a complete response
  under a status that is not \<open>OK\<close>.
\<close>

definition dm_throws :: "dm_request \<Rightarrow> dm_outcome" where
  "dm_throws req = DMThrows"

definition dm_refused :: "dm_request \<Rightarrow> dm_outcome" where
  "dm_refused req =
     DMCallback
       (Some \<lparr>rows =
          [[\<lparr>el_status = ''OK'',
             el_distance = Some \<lparr>dist_value = JNumber (Num 1200), dist_text = Some ''1.2 km''\<rparr>,
             el_duration_text = Some ''3 mins''\<rparr>]]\<rparr>)
       ''OVER_QUERY_LIMIT''"

definition search_ok :: "place list \<Rightarrow> search_request \<Rightarrow> search_outcome" where
  "search_ok ps req = SearchCallback (Some ps) ''OK''"

definition search_down :: "search_request \<Rightarrow> search_outcome" where
  "search_down req = SearchCallback None ''UNKNOWN_ERROR''"

text \<open>
  An origin and a station near the point opposite to it on the globe, and a math library
  given by a table: the doubles nearest to the sine and the cosine at the arguments
  that the distance between these two points asks for, and at zero. \<open>Math.atan2\<close>
  gives \<open>NaN\<close> when an argument is \<open>NaN\<close>. An argument outside the table has the
  entry \<open>NaN\<close>.
\<close>

definition origin_south :: coord where
  "origin_south = \<lparr>lat = - 87.5, lng = - 180\<rparr>"

definition station_far :: place where
  "station_far =
     \<lparr>place_id = ''far'', name = Some ''Far Fuel'', vicinity = None,
      rating = None, geometry_location = Some (LatLng 87.5 0), location = None,
      distanceMeters = JUndefined, distanceText = None, durationText = None\<rparr>"

definition sample_sin :: "jsnum \<Rightarrow> jsnum" where
  "sample_sin x =
     (if x = Num 0 then Num 0
      else if x = Num (6877731147805427 / 2 ^ 52) then Num (8998626396882423 / 2 ^ 53)
      else if x = Num (884279719003555 / 2 ^ 49) then Num 1
      else NaN)"

definition sample_cos :: "jsnum \<Rightarrow> jsnum" where
  "sample_cos x =
     (if x = Num 0 then Num 1
      else if x = Num (6877731147805427 / 2 ^ 52) then Num (3143108106954521 / 2 ^ 56)
      else if x = Num (- 6877731147805427 / 2 ^ 52) then Num (3143108106954521 / 2 ^ 56)
      else NaN)"

definition sample_atan2 :: "jsnum \<Rightarrow> jsnum \<Rightarrow> jsnum" where
  "sample_atan2 y x =
     (if y = NaN \<or> x = NaN then NaN
      else if y = Num 0 \<and> x = Num 1 then Num 0
      else NaN)"

definition sample_libm :: libm where
  "sample_libm = \<lparr>m_sin = sample_sin, m_cos = sample_cos, m_atan2 = sample_atan2\<rparr>"

text \<open>
  \<open>toLowerCase\<close> on strings whose letters are ASCII: the code units of \<open>A\<close> to
  \<open>Z\<close> (65 to 90) move to those of \<open>a\<close> to \<open>z\<close>.
\<close>

definition ascii_lower :: "jsstring \<Rightarrow> jsstring" where
  "ascii_lower s = map (\<lambda>c. if 65 \<le> c \<and> c \<le> 90 then c + 32 else c) s"

text \<open>
  Every code unit that \<open>trim\<close> removes, and code units next to them that it keeps
  (among them the controls U+001C to U+001F, the next line U+0085 and the zero width
  space U+200B).
\<close>

definition white_space :: jsstring where
  "white_space =
     [0x09, 0x0A, 0x0B, 0x0C, 0x0D, 0x20, 0xA0, 0x1680, 0x2000, 0x2001, 0x2002, 0x2003,
      0x2004, 0x2005, 0x2006, 0x2007, 0x2008, 0x2009, 0x200A, 0x2028, 0x2029, 0x202F,
      0x205F, 0x3000, 0xFEFF]"

definition not_white_space :: jsstring where
  "not_white_space =
     [0x00, 0x08, 0x0E, 0x1C, 0x1D, 0x1E, 0x1F, 0x21, 0x85, 0x9F, 0xA1, 0x167F, 0x1681,
      0x1FFF, 0x200B, 0x200C, 0x2027, 0x202A, 0x202E, 0x2030, 0x205E, 0x2060,
      0x2FFF, 0x3001, 0xFEFE, 0xFF00, 0xFFFF]"

section \<open>Properties of double rounding\<close>

lemma round_half_even_bounds:
  "of_int \<lfloor>y\<rfloor> \<le> (of_int (round_half_even y) :: real)"
  "(of_int (round_half_even y) :: real) \<le> of_int \<lceil>y\<rceil>"
  "\<bar>of_int (round_half_even y) - y\<bar> \<le> 1 / 2"
proof -
  show "of_int \<lfloor>y\<rfloor> \<le> (of_int (round_half_even y) :: real)"
    by (simp add: round_half_even_def Let_def)
  show "(of_int (round_half_even y) :: real) \<le> of_int \<lceil>y\<rceil>"
    unfolding round_half_even_def Let_def
    by (auto simp: ceiling_altdef)
  show "\<bar>of_int (round_half_even y) - y\<bar> \<le> 1 / 2"
    unfolding round_half_even_def Let_def
    by (auto split: if_splits)
qed

lemma powi2_pos: "0 < (2::real) powi e"
  by (simp add: zero_less_power_int)

lemma powr2_powi: "(2::real) powr real_of_int k = 2 powi k"
  by (simp only: powr_real_of_int' [of 2] zero_le_numeral numeral_neq_zero simp_thms)

lemma ulp_exp_binade:
  assumes "2 powi k \<le> \<bar>x\<bar>" "\<bar>x\<bar> < 2 powi (k + 1)"
  shows "ulp_exp x = max (k - 52) (- 1074)"
proof -
  have pos: "0 < \<bar>x\<bar>" using assms(1) powi2_pos [of k] by linarith
  have "\<lfloor>log 2 \<bar>x\<bar>\<rfloor> = k"
    using assms pos by (simp only: floor_log_eq_powr_iff [of "\<bar>x\<bar>" 2 k] powr2_powi)
  then show ?thesis by (simp add: ulp_exp_def)
qed

lemma fl_binade:
  assumes "2 powi k \<le> \<bar>x\<bar>" "\<bar>x\<bar> < 2 powi (k + 1)" "- 1022 \<le> k"
  shows "fl x = of_int (round_half_even (x / 2 powi (k - 52))) * 2 powi (k - 52)"
proof -
  have "ulp_exp x = k - 52" using ulp_exp_binade [OF assms(1,2)] assms(3) by simp
  moreover have "x \<noteq> 0" using assms(1) powi2_pos [of k] by (cases "x = 0") simp_all
  ultimately show ?thesis by (simp add: fl_def)
qed

lemma fl_error: "\<bar>fl x - x\<bar> \<le> 2 powi ulp_exp x / 2"
proof (cases "x = 0")
  case True
  then show ?thesis by (simp add: fl_def less_imp_le [OF powi2_pos])
next
  case False
  let ?p = "(2::real) powi ulp_exp x"
  have p: "0 < ?p" by (rule powi2_pos)
  have "fl x - x = (of_int (round_half_even (x / ?p)) - x / ?p) * ?p"
    using False p by (simp add: fl_def field_simps)
  then have "\<bar>fl x - x\<bar> = \<bar>of_int (round_half_even (x / ?p)) - x / ?p\<bar> * ?p"
    using p by (simp add: abs_mult)
  also have "\<dots> \<le> 1 / 2 * ?p"
    using round_half_even_bounds(3) [of "x / ?p"] p by (intro mult_right_mono) simp_all
  finally show ?thesis by simp
qed

lemma fl_lower:
  assumes "of_int d * 2 powi ulp_exp x \<le> x" "x \<noteq> 0"
  shows "of_int d * 2 powi ulp_exp x \<le> fl x"
proof -
  let ?p = "(2::real) powi ulp_exp x"
  have p: "0 < ?p" by (rule powi2_pos)
  have "of_int d \<le> x / ?p" using assms(1) p by (simp add: field_simps)
  then have "d \<le> \<lfloor>x / ?p\<rfloor>" by (simp add: le_floor_iff)
  then have "(of_int d :: real) \<le> of_int (round_half_even (x / ?p))"
    using round_half_even_bounds(1) [of "x / ?p"] by linarith
  then have "of_int d * ?p \<le> of_int (round_half_even (x / ?p)) * ?p"
    using p by (intro mult_right_mono) simp_all
  then show ?thesis using assms(2) by (simp add: fl_def)
qed

lemma binade_exists:
  assumes "0 < x"
  shows "2 powi \<lfloor>log 2 x\<rfloor> \<le> x \<and> x < 2 powi (\<lfloor>log 2 x\<rfloor> + 1)"
  using floor_log_eq_powr_iff [of x 2 "\<lfloor>log 2 x\<rfloor>"] assms by (simp only: powr2_powi) simp

lemma fl_ge_one:
  assumes "1 \<le> x"
  shows "1 \<le> fl x" and "\<bar>fl x - x\<bar> \<le> x / 2 ^ 53"
proof -
  define k where "k = \<lfloor>log 2 x\<rfloor>"
  have x: "0 < x" "x \<noteq> 0" "\<bar>x\<bar> = x" using assms by simp_all
  have k0: "0 \<le> k" using assms by (simp add: k_def)
  have bin: "2 powi k \<le> x" "x < 2 powi (k + 1)"
    using binade_exists [OF x(1)] by (simp_all add: k_def)
  have e: "ulp_exp x = k - 52"
    unfolding ulp_exp_def x(3) k_def [symmetric] using k0 by simp
  have split: "of_int (2 ^ 52) * 2 powi ulp_exp x = (2::real) powi k"
    unfolding e by (simp add: power_int_diff)
  have "2 powi k \<le> fl x"
    using fl_lower [of "2 ^ 52" x, unfolded split, OF bin(1) x(2)] .
  moreover have "(1::real) \<le> 2 powi k"
    using k0 by (simp add: one_le_power_int)
  ultimately show "1 \<le> fl x" by simp
  have "\<bar>fl x - x\<bar> \<le> 2 powi (k - 52) / 2" using fl_error [of x] by (simp only: e)
  also have "\<dots> = 2 powi k / 2 ^ 53" by (simp add: power_int_diff)
  also have "\<dots> \<le> x / 2 ^ 53" using bin(1) by (simp add: divide_right_mono)
  finally show "\<bar>fl x - x\<bar> \<le> x / 2 ^ 53" .
qed

lemma fl_ge_ten:
  assumes "10 \<le> x"
  shows "10 \<le> fl x"
proof (cases "x < 16")
  case True
  have "2 powi 3 \<le> \<bar>x\<bar>" "\<bar>x\<bar> < 2 powi (3 + 1)" using assms True by simp_all
  then have e: "ulp_exp x = - 49" using ulp_exp_binade [of 3 x] by simp
  have "of_int (10 * 2 ^ 49) * 2 powi (- 49) \<le> fl x"
    using fl_lower [of "10 * 2 ^ 49" x] assms by (simp add: e)
  then show ?thesis by simp
next
  case False
  define k where "k = \<lfloor>log 2 x\<rfloor>"
  have x: "0 < x" "x \<noteq> 0" "\<bar>x\<bar> = x" using assms by simp_all
  have "log 2 16 \<le> log 2 x" using False by simp
  moreover have "log 2 16 = 4" using log_pow_cancel [of 2 4] by simp
  ultimately have k4: "4 \<le> k" by (simp add: k_def le_floor_iff)
  have bin: "2 powi k \<le> x" using binade_exists [OF x(1)] by (simp add: k_def)
  have e: "ulp_exp x = k - 52"
    unfolding ulp_exp_def x(3) k_def [symmetric] using k4 by simp
  have split: "of_int (2 ^ 52) * 2 powi ulp_exp x = (2::real) powi k"
    unfolding e by (simp add: power_int_diff)
  have "2 powi k \<le> fl x"
    using fl_lower [of "2 ^ 52" x, unfolded split, OF bin x(2)] .
  moreover have "(2::real) powi 4 \<le> 2 powi k"
    using k4 by (intro power_int_increasing) simp_all
  ultimately show ?thesis by simp
qed

lemma ulp_exp_below_16:
  assumes "0 < x" "x < 16"
  shows "ulp_exp x \<le> - 49"
proof -
  have "log 2 x < log 2 16" using assms by simp
  moreover have "log 2 16 = 4" using log_pow_cancel [of 2 4] by simp
  ultimately have "\<lfloor>log 2 x\<rfloor> \<le> 3" by (simp add: floor_le_iff)
  then show ?thesis using assms(1) by (simp add: ulp_exp_def)
qed

lemma double_below_10000:
  assumes "is_double m" "8192 \<le> m" "m < 10000"
  shows "m \<le> 10000 - 1 / 2 ^ 39"
proof -
  have "2 powi 13 \<le> \<bar>m\<bar>" "\<bar>m\<bar> < 2 powi (13 + 1)" using assms by simp_all
  from fl_binade [OF this] have "fl m = of_int (round_half_even (m / 2 powi (- 39))) * 2 powi (- 39)"
    by simp
  then obtain z :: int where z: "m = of_int z / 2 ^ 39"
    using assms(1) by (auto simp: is_double_def)
  have "real_of_int z < of_int (10000 * 2 ^ 39)"
    using assms(3) by (simp add: z field_simps)
  then have "z < 10000 * 2 ^ 39" by (simp only: of_int_less_iff)
  then have "z \<le> 10000 * 2 ^ 39 - 1" by simp
  then have "real_of_int z \<le> of_int (10000 * 2 ^ 39 - 1)" by (simp only: of_int_le_iff)
  then show ?thesis by (simp add: z field_simps)
qed

lemma fl_quotient_below_ten:
  assumes "is_double m" "1000 \<le> m" "m < 10000"
  shows "fl (m / 1000) < 10"
proof -
  let ?x = "m / 1000"
  have x: "0 < ?x" "?x < 16" using assms by simp_all
  have m: "m \<le> 10000 - 1 / 2 ^ 39"
  proof (cases "8192 \<le> m")
    case True
    then show ?thesis using double_below_10000 [OF assms(1) _ assms(3)] by simp
  next
    case False
    then show ?thesis by simp
  qed
  have "(2::real) powi ulp_exp ?x \<le> 2 powi (- 49)"
    using ulp_exp_below_16 [OF x] by (intro power_int_increasing) simp_all
  then have "\<bar>fl ?x - ?x\<bar> \<le> 1 / 2 ^ 50"
    using fl_error [of ?x] by simp
  moreover have "?x \<le> 10 - 1 / 2 ^ 39 / 1000" using m by simp
  moreover have "(1::real) / 2 ^ 50 < 1 / 2 ^ 39 / 1000" by simp
  moreover have "\<bar>f - y\<bar> \<le> a \<Longrightarrow> y \<le> 10 - b \<Longrightarrow> a < b \<Longrightarrow> f < 10" for f y a b :: real
    by linarith
  ultimately show ?thesis by blast
qed

text \<open>Rounding a real whose binade is known; no overflow below \<open>2^1001\<close>.\<close>

lemma fround_binade:
  assumes "2 powi k \<le> \<bar>x\<bar>" "\<bar>x\<bar> < 2 powi (k + 1)" "- 1022 \<le> k" "k \<le> 1000"
  shows "fround x = Num (of_int (round_half_even (x / 2 powi (k - 52))) * 2 powi (k - 52))"
proof -
  have e: "ulp_exp x = k - 52" using ulp_exp_binade [OF assms(1,2)] assms(3) by simp
  have "\<bar>fl x - x\<bar> \<le> 2 powi (k - 52) / 2" using fl_error [of x] by (simp only: e)
  moreover have "(2::real) powi (k - 52) \<le> 2 powi (k + 1)"
    by (intro power_int_increasing) simp_all
  ultimately have "\<bar>fl x\<bar> \<le> 2 * 2 powi (k + 1)" using assms(2) by linarith
  also have "\<dots> = 2 powi (k + 2)" by (simp add: power_int_add)
  also have "\<dots> \<le> 2 powi 1002"
    using assms(4) by (intro power_int_increasing) simp_all
  also have "\<dots> \<le> max_double" by (simp add: max_double_def)
  finally have "\<not> max_double < \<bar>fl x\<bar>" by simp
  then show ?thesis using fl_binade [OF assms(1-3)] by (simp add: fround_def)
qed

lemma fround_zero: "fround 0 = Num 0"
  by (simp add: fround_def fl_def max_double_def)

text \<open>A sum halfway between two doubles goes to the one with the even last bit.\<close>

lemma js_add_ties_to_even:
  "js_add (Num 1) (Num (1 / 2 ^ 53)) = Num 1"
  "js_add (Num (1 + 1 / 2 ^ 52)) (Num (1 / 2 ^ 53)) = Num (1 + 2 / 2 ^ 52)"
  using fround_binade [of 0 "1 + 1 / 2 ^ 53"] fround_binade [of 0 "1 + 1 / 2 ^ 52 + 1 / 2 ^ 53"]
  by (simp_all add: round_half_even_def)

section \<open>Properties of the distance formatter\<close>

lemma dec_digits_small: "n < 10 \<Longrightarrow> dec_digits n = [digit_char n]"
  by (simp add: dec_digits.simps)

lemma dec_digits_step:
  "10 \<le> n \<Longrightarrow> dec_digits n = dec_digits (n div 10) @ [digit_char (n mod 10)]"
  by (subst dec_digits.simps) simp

lemma dec_digits_nonempty: "dec_digits n \<noteq> []"
  by (subst dec_digits.simps) simp

lemma toFixed_0: "0 \<le> x \<Longrightarrow> toFixed 0 x = dec_digits (nat \<lfloor>x + 1 / 2\<rfloor>)"
  by (simp add: toFixed_def Let_def)

lemma toFixed_1:
  assumes "1 \<le> x"
  shows "toFixed 1 x = dec_digits (nat \<lfloor>x * 10 + 1 / 2\<rfloor> div 10) @ ''.'' @
                        [digit_char (nat \<lfloor>x * 10 + 1 / 2\<rfloor> mod 10)]"
proof -
  let ?n = "nat \<lfloor>x * 10 + 1 / 2\<rfloor>"
  have "10 \<le> \<lfloor>x * 10 + 1 / 2\<rfloor>" using assms by linarith
  then have n10: "10 \<le> ?n" by linarith
  then have step: "dec_digits ?n = dec_digits (?n div 10) @ [digit_char (?n mod 10)]"
    by (rule dec_digits_step)
  have len: "\<not> length (dec_digits ?n) \<le> 1"
    using dec_digits_nonempty [of "?n div 10"] by (simp add: step)
  have neg: "\<not> x < 0" using assms by simp
  have absx: "\<bar>x\<bar> = x" using assms by simp
  show ?thesis
    unfolding toFixed_def Let_def using len neg
    by (simp add: absx step)
qed

lemma toFixed_Suc0:
  "1 \<le> x \<Longrightarrow>
   toFixed (Suc 0) x = dec_digits (nat \<lfloor>x * 10 + 1 / 2\<rfloor> div 10) @ ''.'' @
                         [digit_char (nat \<lfloor>x * 10 + 1 / 2\<rfloor> mod 10)]"
  using toFixed_1 [of x] by simp

text \<open>The quotient \<open>m / 1000\<close> as JavaScript computes it.\<close>

lemma metersToKm_ge_one: "1000 \<le> m \<Longrightarrow> 1 \<le> metersToKm m"
  unfolding metersToKm_def by (rule fl_ge_one(1)) simp

lemma metersToKm_error: "1000 \<le> m \<Longrightarrow> \<bar>metersToKm m - m / 1000\<bar> \<le> m / 1000 / 2 ^ 53"
  unfolding metersToKm_def by (rule fl_ge_one(2)) simp

lemma metersToKm_below_ten:
  "is_double m \<Longrightarrow> 1000 \<le> m \<Longrightarrow> m < 10000 \<Longrightarrow> metersToKm m < 10"
  unfolding metersToKm_def by (rule fl_quotient_below_ten)

lemma metersToKm_ge_ten: "10000 \<le> m \<Longrightarrow> 10 \<le> metersToKm m"
  unfolding metersToKm_def by (rule fl_ge_ten) simp

lemma metersToKm_1000: "metersToKm 1000 = 1"
  using fl_binade [of 0 "1000 / 1000"] by (simp add: metersToKm_def round_half_even_def)

lemma metersToKm_1150: "metersToKm 1150 = 5179139571476070 / 2 ^ 52"
  using fl_binade [of 0 "1150 / 1000"] by (simp add: metersToKm_def round_half_even_def)

lemma metersToKm_9999: "metersToKm 9999 = 5628936584259699 / 2 ^ 49"
  using fl_binade [of 3 "9999 / 1000"] by (simp add: metersToKm_def round_half_even_def)

lemma metersToKm_10000: "metersToKm 10000 = 10"
  using fl_binade [of 3 "10000 / 1000"] by (simp add: metersToKm_def round_half_even_def)

lemma metersToKm_1250: "metersToKm 1250 = 5 / 4"
  using fl_binade [of 0 "1250 / 1000"] by (simp add: metersToKm_def round_half_even_def)

lemma metersToKm_12500: "metersToKm 12500 = 25 / 2"
  using fl_binade [of 3 "12500 / 1000"] by (simp add: metersToKm_def round_half_even_def)

lemma is_double_2500: "is_double 2500"
  using fl_binade [of 11 2500] by (simp add: is_double_def round_half_even_def max_double_def)

lemma formatDistance_meters:
  assumes "m < 1000"
  shows "\<exists>N::int. \<bar>real_of_int N - m\<bar> \<le> 1 / 2 \<and>
           formatDistance (JNumber (Num m)) = Number_toString N @ '' m''"
proof (intro exI conjI)
  show "\<bar>real_of_int (Math_round m) - m\<bar> \<le> 1 / 2"
    unfolding Math_round_def by linarith
  show "formatDistance (JNumber (Num m)) = Number_toString (Math_round m) @ '' m''"
    using assms by simp
qed

lemma formatDistance_one_decimal:
  assumes "1000 \<le> m" "metersToKm m < 10"
  shows "\<exists>N::nat. 10 \<le> N \<and> N \<le> 100 \<and> \<bar>real N / 10 - metersToKm m\<bar> \<le> 1 / 20 \<and>
           formatDistance (JNumber (Num m)) =
             dec_digits (N div 10) @ ''.'' @ [digit_char (N mod 10)] @ '' km''"
proof -
  define km where "km = metersToKm m"
  let ?N = "nat \<lfloor>km * 10 + 1 / 2\<rfloor>"
  have km: "1 \<le> km" "km < 10"
    using assms metersToKm_ge_one [of m] by (simp_all add: km_def)
  have fl: "10 \<le> \<lfloor>km * 10 + 1 / 2\<rfloor>" "\<lfloor>km * 10 + 1 / 2\<rfloor> \<le> 100"
    using km by linarith+
  have N: "10 \<le> ?N" "?N \<le> 100" using fl by linarith+
  have rN: "real ?N = real_of_int \<lfloor>km * 10 + 1 / 2\<rfloor>" using fl by simp
  have close: "\<bar>real ?N / 10 - km\<bar> \<le> 1 / 20"
    unfolding rN by linarith
  have "formatDistance (JNumber (Num m)) =
          dec_digits (?N div 10) @ ''.'' @ [digit_char (?N mod 10)] @ '' km''"
    using assms(1) km by (simp add: km_def [symmetric] Let_def toFixed_Suc0)
  with N close show ?thesis unfolding km_def by blast
qed

lemma formatDistance_no_decimal:
  assumes "1000 \<le> m" "10 \<le> metersToKm m"
  shows "\<exists>N::nat. 10 \<le> N \<and> \<bar>real N - metersToKm m\<bar> \<le> 1 / 2 \<and>
           formatDistance (JNumber (Num m)) = dec_digits N @ '' km''"
proof -
  define km where "km = metersToKm m"
  let ?N = "nat \<lfloor>km + 1 / 2\<rfloor>"
  have km: "10 \<le> km" using assms by (simp add: km_def)
  have fl: "10 \<le> \<lfloor>km + 1 / 2\<rfloor>" using km by linarith
  have N: "10 \<le> ?N" using fl by linarith
  have rN: "real ?N = real_of_int \<lfloor>km + 1 / 2\<rfloor>" using fl by simp
  have close: "\<bar>real ?N - km\<bar> \<le> 1 / 2"
    unfolding rN by linarith
  have "formatDistance (JNumber (Num m)) = dec_digits ?N @ '' km''"
    using assms(1) km by (simp add: km_def [symmetric] Let_def toFixed_0)
  with N close show ?thesis unfolding km_def by blast
qed

lemma formatDistance_999: "formatDistance (JNumber (Num 999)) = ''999 m''"
  by (simp add: Number_toString_def Math_round_def dec_digits.simps digit_char_def)

lemma formatDistance_1000: "formatDistance (JNumber (Num 1000)) = ''1.0 km''"
  by (simp add: metersToKm_1000 toFixed_Suc0 dec_digits.simps digit_char_def)

lemma formatDistance_9999: "formatDistance (JNumber (Num 9999)) = ''10.0 km''"
  by (simp add: metersToKm_9999 toFixed_Suc0 dec_digits.simps digit_char_def)

lemma formatDistance_10000: "formatDistance (JNumber (Num 10000)) = ''10 km''"
  by (simp add: metersToKm_10000 toFixed_0 dec_digits.simps digit_char_def)

text \<open>
  The quotient is rounded before it is printed: \<open>1150 / 1000\<close> is a double just below
  1.15, so 1150 m is printed as \<open>1.1 km\<close>.
\<close>

lemma formatDistance_1150: "formatDistance (JNumber (Num 1150)) = ''1.1 km''"
  by (simp add: metersToKm_1150 toFixed_Suc0 dec_digits.simps digit_char_def)

text \<open>
  A value halfway between two printed numbers goes up: \<open>Math.round\<close> rounds a tie
  towards \<open>+\<infinity>\<close>, and \<open>toFixed\<close> takes the larger digit string.
\<close>

lemma formatDistance_ties:
  "formatDistance (JNumber (Num 2.5)) = ''3 m''"
  "formatDistance (JNumber (Num (- 2.5))) = ''-2 m''"
  "formatDistance (JNumber (Num 1250)) = ''1.3 km''"
  "formatDistance (JNumber (Num 12500)) = ''13 km''"
  by (simp_all add: Number_toString_def Math_round_def metersToKm_1250 metersToKm_12500
      toFixed_Suc0 toFixed_0 dec_digits.simps digit_char_def)

text \<open>
  Claim C8. \<open>formatDistance\<close> renders a value under 1000 m as whole meters: the digits of
  the nearest integer \<open>N\<close>, then \<open>m\<close>. It renders a value from 1000 m up in kilometers,
  where the kilometers are the double \<open>metersToKm m\<close>, which is \<open>m / 1000\<close> up to a
  relative error of \<open>2^-53\<close>: when they are below 10 with one decimal place (the digits
  of the nearest tenth, \<open>N / 10\<close>, with a point before the last digit), and when they are
  10 or more with no decimals (the digits of the nearest integer). The kilometers are
  below 10 for every double from 1000 to below 10000 m, and 10 or more from 10000 m up.
  In particular 999 gives \<open>999 m\<close>, 1000 gives \<open>1.0 km\<close>, 9999 gives \<open>10.0 km\<close> and
  10000 gives \<open>10 km\<close>; 1150, whose quotient is a double just below 1.15, gives
  \<open>1.1 km\<close>; and a tie goes up (2.5 gives \<open>3 m\<close>, -2.5 gives \<open>-2 m\<close>, 1250 gives
  \<open>1.3 km\<close>, 12500 gives \<open>13 km\<close>). The bounds \<open>- 2^53\<close> and \<open>10^21\<close> keep the printed number
  where JavaScript writes the plain digits of its value.
\<close>

theorem formatDistance_rendering:
  "(\<forall>m. - (2 ^ 53) \<le> m \<and> m < 1000 \<longrightarrow>
      (\<exists>N::int. \<bar>real_of_int N - m\<bar> \<le> 1 / 2 \<and>
         formatDistance (JNumber (Num m)) = Number_toString N @ '' m'')) \<and>
   (\<forall>m. 1000 \<le> m \<and> metersToKm m < 10 \<longrightarrow>
      (\<exists>N::nat. 10 \<le> N \<and> N \<le> 100 \<and> \<bar>real N / 10 - metersToKm m\<bar> \<le> 1 / 20 \<and>
         formatDistance (JNumber (Num m)) =
           dec_digits (N div 10) @ ''.'' @ [digit_char (N mod 10)] @ '' km'')) \<and>
   (\<forall>m. 1000 \<le> m \<and> 10 \<le> metersToKm m \<and> metersToKm m < 10 ^ 21 \<longrightarrow>
      (\<exists>N::nat. 10 \<le> N \<and> \<bar>real N - metersToKm m\<bar> \<le> 1 / 2 \<and>
         formatDistance (JNumber (Num m)) = dec_digits N @ '' km'')) \<and>
   (\<forall>m. 1000 \<le> m \<longrightarrow> \<bar>metersToKm m - m / 1000\<bar> \<le> m / 1000 / 2 ^ 53) \<and>
   (\<forall>m. is_double m \<and> 1000 \<le> m \<and> m < 10000 \<longrightarrow> metersToKm m < 10) \<and>
   (\<forall>m. 10000 \<le> m \<longrightarrow> 10 \<le> metersToKm m) \<and>
   formatDistance (JNumber (Num 999)) = ''999 m'' \<and>
   formatDistance (JNumber (Num 1000)) = ''1.0 km'' \<and>
   formatDistance (JNumber (Num 9999)) = ''10.0 km'' \<and>
   formatDistance (JNumber (Num 10000)) = ''10 km'' \<and>
   formatDistance (JNumber (Num 1150)) = ''1.1 km'' \<and>
   formatDistance (JNumber (Num 2.5)) = ''3 m'' \<and>
   formatDistance (JNumber (Num (- 2.5))) = ''-2 m'' \<and>
   formatDistance (JNumber (Num 1250)) = ''1.3 km'' \<and>
   formatDistance (JNumber (Num 12500)) = ''13 km''"
proof (intro conjI allI impI)
  fix m :: real
  assume "- (2 ^ 53) \<le> m \<and> m < 1000"
  then show "\<exists>N::int. \<bar>real_of_int N - m\<bar> \<le> 1 / 2 \<and>
           formatDistance (JNumber (Num m)) = Number_toString N @ '' m''"
    using formatDistance_meters [of m] by blast
next
  fix m :: real
  assume "1000 \<le> m \<and> metersToKm m < 10"
  then show "\<exists>N::nat. 10 \<le> N \<and> N \<le> 100 \<and> \<bar>real N / 10 - metersToKm m\<bar> \<le> 1 / 20 \<and>
           formatDistance (JNumber (Num m)) =
             dec_digits (N div 10) @ ''.'' @ [digit_char (N mod 10)] @ '' km''"
    using formatDistance_one_decimal [of m] by blast
next
  fix m :: real
  assume "1000 \<le> m \<and> 10 \<le> metersToKm m \<and> metersToKm m < 10 ^ 21"
  then show "\<exists>N::nat. 10 \<le> N \<and> \<bar>real N - metersToKm m\<bar> \<le> 1 / 2 \<and>
           formatDistance (JNumber (Num m)) = dec_digits N @ '' km''"
    using formatDistance_no_decimal [of m] by blast
next
  fix m :: real
  assume "1000 \<le> m"
  then show "\<bar>metersToKm m - m / 1000\<bar> \<le> m / 1000 / 2 ^ 53" by (rule metersToKm_error)
next
  fix m :: real
  assume "is_double m \<and> 1000 \<le> m \<and> m < 10000"
  then show "metersToKm m < 10" using metersToKm_below_ten [of m] by blast
next
  fix m :: real
  assume "10000 \<le> m"
  then show "10 \<le> metersToKm m" by (rule metersToKm_ge_ten)
qed (rule formatDistance_999 formatDistance_1000 formatDistance_9999 formatDistance_10000
    formatDistance_1150 formatDistance_ties)+

theorem formatDistance_rendering_witness:
  "(\<exists>N::int. \<bar>real_of_int N - 250\<bar> \<le> 1 / 2 \<and>
      formatDistance (JNumber (Num 250)) = Number_toString N @ '' m'') \<and>
   (\<exists>N::nat. 10 \<le> N \<and> N \<le> 100 \<and> \<bar>real N / 10 - metersToKm 2500\<bar> \<le> 1 / 20 \<and>
      formatDistance (JNumber (Num 2500)) =
        dec_digits (N div 10) @ ''.'' @ [digit_char (N mod 10)] @ '' km'') \<and>
   (\<exists>N::nat. 10 \<le> N \<and> \<bar>real N - metersToKm 25000\<bar> \<le> 1 / 2 \<and>
      formatDistance (JNumber (Num 25000)) = dec_digits N @ '' km'') \<and>
   \<bar>metersToKm 2500 - 2500 / 1000\<bar> \<le> 2500 / 1000 / 2 ^ 53 \<and>
   metersToKm 2500 < 10 \<and> 10 \<le> metersToKm 25000"
proof -
  have k: "metersToKm 2500 = 5 / 2"
    using fl_binade [of 1 "2500 / 1000"] by (simp add: metersToKm_def round_half_even_def)
  have l: "metersToKm 25000 = 25"
    using fl_binade [of 4 "25000 / 1000"] by (simp add: metersToKm_def round_half_even_def)
  have a: "- (2 ^ 53) \<le> (250::real) \<and> (250::real) < 1000" by simp
  have b: "(1000::real) \<le> 2500 \<and> metersToKm 2500 < 10" by (simp add: k)
  have c: "(1000::real) \<le> 25000 \<and> 10 \<le> metersToKm 25000 \<and> metersToKm 25000 < 10 ^ 21"
    by (simp add: l)
  have d: "is_double 2500 \<and> (1000::real) \<le> 2500 \<and> (2500::real) < 10000"
    by (simp add: is_double_2500)
  have e: "(1000::real) \<le> 2500" "(10000::real) \<le> 25000" by simp_all
  from formatDistance_rendering a b c d e show ?thesis by blast
qed

text \<open>
  Claim C9. For \<open>null\<close>, \<open>undefined\<close> and \<open>NaN\<close> the formatter returns the empty
  string; it neither fails nor renders \<open>NaN m\<close>.
\<close>

theorem formatDistance_absent:
  "formatDistance JNull = '''' \<and> formatDistance JUndefined = '''' \<and>
   formatDistance (JNumber NaN) = '''' \<and>
   formatDistanceKm JNull = '''' \<and> formatDistanceKm JUndefined = '''' \<and>
   formatDistanceKm (JNumber NaN) = ''''"
  by (simp add: formatDistanceKm_def)

section \<open>Properties of the flag parser\<close>

lemma parse_pair_other:
  assumes "k \<noteq> []" "k \<noteq> js ''__proto__''"
  shows "parse_pair lc fs p k = (if pair_key p = k then Some (listed_value lc p) else fs k)"
  using assms
  by (auto simp: parse_pair_def pair_key_def pair_value_def listed_value_def assign_flag_def
      Let_def split: list.splits)

lemma parse_pair_empty_key: "parse_pair lc fs p [] = fs []"
  by (auto simp: parse_pair_def assign_flag_def Let_def split: list.splits)

lemma parse_pair_proto: "parse_pair lc fs p (js ''__proto__'') = fs (js ''__proto__'')"
  by (auto simp: parse_pair_def assign_flag_def Let_def split: list.splits)

lemma parse_pairs_snoc:
  "parse_pairs lc fs (ps @ [p]) = parse_pair lc (parse_pairs lc fs ps) p"
  by (induction ps arbitrary: fs) simp_all

lemma parse_pairs_other:
  assumes "k \<noteq> []" "k \<noteq> js ''__proto__''"
  shows "parse_pairs lc fs ps k =
           (case last_listing k ps of None \<Rightarrow> fs k | Some p \<Rightarrow> Some (listed_value lc p))"
proof (induction ps rule: rev_induct)
  case Nil
  show ?case by (simp add: last_listing_def)
next
  case (snoc p ps)
  show ?case
    using snoc assms
    by (simp add: parse_pairs_snoc parse_pair_other last_listing_def)
qed

lemma parse_pairs_empty_key: "parse_pairs lc fs ps [] = fs []"
  by (induction ps arbitrary: fs) (simp_all add: parse_pair_empty_key)

lemma parse_pairs_proto: "parse_pairs lc fs ps (js ''__proto__'') = fs (js ''__proto__'')"
  by (induction ps arbitrary: fs) (simp_all add: parse_pair_proto)

lemma flag_pairs_Nil: "flag_pairs [] = []"
  by (simp add: flag_pairs_def trim_def)

text \<open>
  The no-break space (code unit 160) around a value is trimmed: \<open>a=\<close>, a no-break
  space and \<open>true\<close> give \<open>true\<close> for the key \<open>a\<close>.
\<close>

lemma parseFeatureFlags_no_break_space:
  "parseFeatureFlags ascii_lower (Str (js ''a='' @ [160] @ js ''true'')) (js ''a'') = Some True"
  by (simp add: parseFeatureFlags_def flag_pairs_def trim_def is_space_def parse_pair_def
      pair_fields_def assign_flag_def ascii_lower_def js_def)

text \<open>
  Claim C10, as stated, fails where a key is listed twice: in \<open>a,a=false\<close> the key
  \<open>a\<close> is listed with no \<open>=\<close>, and the mapping returned sends it to \<open>false\<close>.
\<close>

theorem parseFeatureFlags_relisted_counterexample:
  "flag_pairs (js ''a,a=false'') = [js ''a'', js ''a=false''] \<and>
   pair_key (js ''a'') = js ''a'' \<and> pair_value (js ''a'') = None \<and>
   parseFeatureFlags ascii_lower (Str (js ''a,a=false'')) (js ''a'') = Some False"
  by (simp add: parseFeatureFlags_def flag_pairs_def trim_def is_space_def parse_pair_def
      pair_fields_def pair_key_def pair_value_def assign_flag_def ascii_lower_def js_def)

text \<open>
  Claim C10, amended. The values of the mapping are booleans (by its type). An input
  that is not a string, or the empty string, gives the empty mapping. For a string, a
  key other than the empty one and \<open>__proto__\<close> is in the mapping exactly when it is
  listed, and its last listing decides its value: \<open>true\<close> when that listing has no
  \<open>=\<close> or an empty value, and otherwise \<open>true\<close> exactly when the value in lower case
  is \<open>true\<close>, \<open>1\<close> or \<open>yes\<close>. The empty key and \<open>__proto__\<close> are never stored.
  This holds whatever the case mapping \<open>toLowerCase\<close> of the engine is. Trimming
  removes each white space code unit of ECMAScript around a key (so \<open>k\<close> between two of
  them is the key \<open>k\<close>) and keeps the code units next to them.
\<close>

theorem parseFeatureFlags_last_listing:
  "parseFeatureFlags toLowerCase NotAString = Map.empty \<and>
   parseFeatureFlags toLowerCase (Str []) = Map.empty \<and>
   (\<forall>s k. k \<noteq> [] \<and> k \<noteq> js ''__proto__'' \<longrightarrow>
      parseFeatureFlags toLowerCase (Str s) k =
        map_option (listed_value toLowerCase) (last_listing k (flag_pairs s))) \<and>
   (\<forall>e. parseFeatureFlags toLowerCase e [] = None \<and>
        parseFeatureFlags toLowerCase e (js ''__proto__'') = None) \<and>
   list_all (\<lambda>c. parseFeatureFlags toLowerCase (Str ([c] @ js ''k'' @ [c])) (js ''k'') = Some True)
     white_space \<and>
   list_all (\<lambda>c. parseFeatureFlags toLowerCase (Str ([c] @ js ''k'' @ [c])) ([c] @ js ''k'' @ [c]) =
                   Some True \<and>
                 parseFeatureFlags toLowerCase (Str ([c] @ js ''k'' @ [c])) (js ''k'') = None)
     not_white_space"
proof (intro conjI allI impI)
  show "parseFeatureFlags toLowerCase NotAString = Map.empty"
    by (simp add: parseFeatureFlags_def)
  show "parseFeatureFlags toLowerCase (Str []) = Map.empty"
    by (simp add: parseFeatureFlags_def)
next
  fix s k :: jsstring
  assume k: "k \<noteq> [] \<and> k \<noteq> js ''__proto__''"
  show "parseFeatureFlags toLowerCase (Str s) k =
          map_option (listed_value toLowerCase) (last_listing k (flag_pairs s))"
  proof (cases "s = []")
    case True
    then show ?thesis by (simp add: parseFeatureFlags_def flag_pairs_Nil last_listing_def)
  next
    case False
    then show ?thesis
      using k by (simp add: parseFeatureFlags_def parse_pairs_other split: option.splits)
  qed
next
  fix e
  show "parseFeatureFlags toLowerCase e [] = None"
    by (cases e) (simp_all add: parseFeatureFlags_def parse_pairs_empty_key)
  show "parseFeatureFlags toLowerCase e (js ''__proto__'') = None"
    by (cases e) (simp_all add: parseFeatureFlags_def parse_pairs_proto)
next
  show "list_all (\<lambda>c. parseFeatureFlags toLowerCase (Str ([c] @ js ''k'' @ [c])) (js ''k'') =
                        Some True) white_space"
    by (simp add: white_space_def parseFeatureFlags_def flag_pairs_def trim_def is_space_def
        parse_pair_def pair_fields_def assign_flag_def js_def)
  show "list_all (\<lambda>c. parseFeatureFlags toLowerCase (Str ([c] @ js ''k'' @ [c]))
                          ([c] @ js ''k'' @ [c]) = Some True \<and>
                        parseFeatureFlags toLowerCase (Str ([c] @ js ''k'' @ [c])) (js ''k'') = None)
          not_white_space"
    by (simp add: not_white_space_def parseFeatureFlags_def flag_pairs_def trim_def is_space_def
        parse_pair_def pair_fields_def assign_flag_def js_def)
qed

theorem parseFeatureFlags_last_listing_witness:
  "js ''x'' \<noteq> [] \<and> js ''x'' \<noteq> js ''__proto__'' \<and>
   parseFeatureFlags ascii_lower (Str (js ''x=no, y ;x=YES'')) (js ''x'') =
     map_option (listed_value ascii_lower)
       (last_listing (js ''x'') (flag_pairs (js ''x=no, y ;x=YES''))) \<and>
   last_listing (js ''x'') (flag_pairs (js ''x=no, y ;x=YES'')) = Some (js ''x=YES'') \<and>
   listed_value ascii_lower (js ''x=YES'')"
proof -
  have k: "js ''x'' \<noteq> [] \<and> js ''x'' \<noteq> js ''__proto__''" by (simp add: js_def)
  have l: "last_listing (js ''x'') (flag_pairs (js ''x=no, y ;x=YES'')) = Some (js ''x=YES'')"
    by (simp add: last_listing_def flag_pairs_def trim_def is_space_def pair_key_def
        pair_fields_def js_def)
  have v: "listed_value ascii_lower (js ''x=YES'')"
    by (simp add: listed_value_def pair_value_def pair_fields_def trim_def is_space_def
        ascii_lower_def js_def)
  from parseFeatureFlags_last_listing [of ascii_lower] k l v show ?thesis by blast
qed

section \<open>Properties of the distance enrichment\<close>

lemma computeDistances_fallback:
  assumes "flags ''enableDistanceMatrix'' \<noteq> Some True \<or> origins = [] \<or> places = [] \<or>
           (\<exists>og e. first_origin origins = Some og \<and> getDistanceMatrix dm og places = Inl e)"
  shows "computeDistancesIfEnabled lm dm origins places flags =
           haversine_fallback lm origins places"
  using assms
  by (auto simp: computeDistancesIfEnabled_def Let_def split: option.splits sum.splits)

lemma computeDistances_matrix:
  assumes "flags ''enableDistanceMatrix'' = Some True" "first_origin origins = Some og"
    "places \<noteq> []" "getDistanceMatrix dm og places = Inr response"
  shows "computeDistancesIfEnabled lm dm origins places flags =
           map (\<lambda>(p, idx). enrich_dm (row_elements response) p idx)
             (zip places [0 ..< length places])"
proof -
  have "origins \<noteq> []" using assms(2) by (auto simp: first_origin_def)
  then show ?thesis
    using assms by (simp add: computeDistancesIfEnabled_def Let_def)
qed

lemma matrix_nth:
  assumes "i < length places"
  shows "map (\<lambda>(p, idx). enrich_dm els p idx) (zip places [0 ..< length places]) ! i =
           enrich_dm els (places ! i) i"
  using assms by simp

lemma getDistanceMatrix_ok:
  "getDistanceMatrix dm og places = Inr response \<longleftrightarrow>
     dm \<lparr>dm_origin = og, dm_destinations = map destination_of places\<rparr> =
       DMCallback (Some response) ''OK''"
  by (auto simp: getDistanceMatrix_def split: dm_outcome.splits option.splits)

text \<open>
  The call fails when the provider throws, answers with a status other than \<open>OK\<close>, or
  answers with no response; these are the only ways.
\<close>

lemma getDistanceMatrix_fails:
  "(\<exists>e. getDistanceMatrix dm og places = Inl e) \<longleftrightarrow>
     dm \<lparr>dm_origin = og, dm_destinations = map destination_of places\<rparr> = DMThrows \<or>
     (\<exists>res status.
        dm \<lparr>dm_origin = og, dm_destinations = map destination_of places\<rparr> =
          DMCallback res status \<and> (status \<noteq> ''OK'' \<or> res = None))"
  by (auto simp: getDistanceMatrix_def split: dm_outcome.splits option.splits)

lemma enrich_haversine_known:
  assumes "place_position p = Some pos"
  shows "distanceMeters (enrich_haversine lm (Some og) p) =
           JNumber (haversineMeters lm (lat og) (lng og) (lat pos) (lng pos))"
    and "distanceText (enrich_haversine lm (Some og) p) =
           Some (formatDistance
                   (JNumber (haversineMeters lm (lat og) (lng og) (lat pos) (lng pos))))"
  using assms
  by (auto simp: enrich_haversine_def place_position_def Let_def
      split: option.splits geo_location.splits)

lemma enrich_haversine_unknown:
  "distanceMeters (enrich_haversine lm None p) = JUndefined"
  "distanceText (enrich_haversine lm None p) = None"
  by (simp_all add: enrich_haversine_def)

lemma enrich_haversine_keeps:
  "durationText (enrich_haversine lm og p) = durationText p"
  "place_id (enrich_haversine lm og p) = place_id p"
  "name (enrich_haversine lm og p) = name p"
  "place_position (enrich_haversine lm og p) = place_position p"
  by (auto simp: enrich_haversine_def Let_def place_position_def
      split: option.splits geo_location.splits)

lemma haversine_fallback_length:
  "length (haversine_fallback lm origins places) = length places"
  by (simp add: haversine_fallback_def)

lemma haversine_fallback_nth:
  "i < length places \<Longrightarrow>
   haversine_fallback lm origins places ! i =
     enrich_haversine lm (first_origin origins) (places ! i)"
  by (simp add: haversine_fallback_def)

text \<open>
  Whenever the Distance Matrix is not used (the flag is off, no origin is known, the
  list is empty, or the call fails), the result has the length of the input, and at
  every index: with an origin and a position, \<open>distanceMeters\<close> is what
  \<open>haversineMeters\<close> returns for the origin and the position and \<open>distanceText\<close>
  is its rendering by \<open>formatDistance\<close>; with no origin both are absent;
  \<open>durationText\<close> is left as it was; the identifier and the position are unchanged.
\<close>

lemma fallback_structure:
  assumes "flags ''enableDistanceMatrix'' \<noteq> Some True \<or> origins = [] \<or> places = [] \<or>
           (\<exists>og. first_origin origins = Some og \<and>
              (dm \<lparr>dm_origin = og, dm_destinations = map destination_of places\<rparr> = DMThrows \<or>
               (\<exists>res status.
                  dm \<lparr>dm_origin = og, dm_destinations = map destination_of places\<rparr> =
                    DMCallback res status \<and> (status \<noteq> ''OK'' \<or> res = None))))"
  shows "length (computeDistancesIfEnabled lm dm origins places flags) = length places \<and>
         (\<forall>i < length places.
            (\<forall>og pos. first_origin origins = Some og \<and> place_position (places ! i) = Some pos \<longrightarrow>
               distanceMeters (computeDistancesIfEnabled lm dm origins places flags ! i) =
                 JNumber (haversineMeters lm (lat og) (lng og) (lat pos) (lng pos)) \<and>
               distanceText (computeDistancesIfEnabled lm dm origins places flags ! i) =
                 Some (formatDistance
                         (JNumber (haversineMeters lm (lat og) (lng og) (lat pos) (lng pos))))) \<and>
            (origins = [] \<longrightarrow>
               distanceMeters (computeDistancesIfEnabled lm dm origins places flags ! i) =
                 JUndefined \<and>
               distanceText (computeDistancesIfEnabled lm dm origins places flags ! i) = None) \<and>
            durationText (computeDistancesIfEnabled lm dm origins places flags ! i) =
              durationText (places ! i) \<and>
            place_id (computeDistancesIfEnabled lm dm origins places flags ! i) =
              place_id (places ! i) \<and>
            place_position (computeDistancesIfEnabled lm dm origins places flags ! i) =
              place_position (places ! i))"
proof -
  have "flags ''enableDistanceMatrix'' \<noteq> Some True \<or> origins = [] \<or> places = [] \<or>
        (\<exists>og e. first_origin origins = Some og \<and> getDistanceMatrix dm og places = Inl e)"
    using assms getDistanceMatrix_fails [of dm _ places] by blast
  then have eq: "computeDistancesIfEnabled lm dm origins places flags =
                   haversine_fallback lm origins places"
    by (rule computeDistances_fallback)
  show ?thesis
    unfolding eq
    by (auto simp: haversine_fallback_length haversine_fallback_nth first_origin_def
        enrich_haversine_known enrich_haversine_unknown enrich_haversine_keeps)
qed

text \<open>
  The distance from 87.5 S 180 W to 87.5 N 0 E, two points that lie opposite to each
  other on the globe, step by step in double arithmetic: the constant \<open>a\<close> comes
  out one unit in the last place above 1.
\<close>

lemma sample_libm_sel:
  "m_sin sample_libm = sample_sin" "m_cos sample_libm = sample_cos"
  "m_atan2 sample_libm = sample_atan2"
  by (simp_all add: sample_libm_def)

lemma haversine_a_antipode:
  "haversine_a sample_libm (- 87.5) (- 180) 87.5 0 = Num (4503599627370497 / 2 ^ 52)"
proof -
  have d_lat: "js_sub (Num 87.5) (Num (- 87.5)) = Num 175"
    using fround_binade [of 7 "87.5 + - (- 87.5)"]
    by (simp add: round_half_even_def Math_PI_def js_sub_def)
  have m_lat: "js_mul (Num 175) (Num Math_PI) = Num (4835904713300691 / 2 ^ 43)"
    using fround_binade [of 9 "175 * Math_PI"]
    by (simp add: round_half_even_def Math_PI_def js_sub_def)
  have r_lat: "js_div_by (Num (4835904713300691 / 2 ^ 43)) 180 = Num (6877731147805427 / 2 ^ 51)"
    using fround_binade [of 1 "(4835904713300691 / 2 ^ 43) / 180"]
    by (simp add: round_half_even_def Math_PI_def js_sub_def)
  have h_lat: "js_div_by (Num (6877731147805427 / 2 ^ 51)) 2 = Num (6877731147805427 / 2 ^ 52)"
    using fround_binade [of 0 "(6877731147805427 / 2 ^ 51) / 2"]
    by (simp add: round_half_even_def Math_PI_def js_sub_def)
  have d_lon: "js_sub (Num 0) (Num (- 180)) = Num 180"
    using fround_binade [of 7 "0 + - (- 180)"]
    by (simp add: round_half_even_def Math_PI_def js_sub_def)
  have m_lon: "js_mul (Num 180) (Num Math_PI) = Num (4974073419394997 / 2 ^ 43)"
    using fround_binade [of 9 "180 * Math_PI"]
    by (simp add: round_half_even_def Math_PI_def js_sub_def)
  have r_lon: "js_div_by (Num (4974073419394997 / 2 ^ 43)) 180 = Num (884279719003555 / 2 ^ 48)"
    using fround_binade [of 1 "(4974073419394997 / 2 ^ 43) / 180"]
    by (simp add: round_half_even_def Math_PI_def js_sub_def)
  have h_lon: "js_div_by (Num (884279719003555 / 2 ^ 48)) 2 = Num (884279719003555 / 2 ^ 49)"
    using fround_binade [of 0 "(884279719003555 / 2 ^ 48) / 2"]
    by (simp add: round_half_even_def Math_PI_def js_sub_def)
  have m_1: "js_mul (Num (- 87.5)) (Num Math_PI) = Num (- 4835904713300691 / 2 ^ 44)"
    using fround_binade [of 8 "(- 87.5) * Math_PI"]
    by (simp add: round_half_even_def Math_PI_def js_sub_def)
  have r_1: "js_div_by (Num (- 4835904713300691 / 2 ^ 44)) 180 = Num (- 6877731147805427 / 2 ^ 52)"
    using fround_binade [of 0 "(- 4835904713300691 / 2 ^ 44) / 180"]
    by (simp add: round_half_even_def Math_PI_def js_sub_def)
  have m_2: "js_mul (Num 87.5) (Num Math_PI) = Num (4835904713300691 / 2 ^ 44)"
    using fround_binade [of 8 "87.5 * Math_PI"]
    by (simp add: round_half_even_def Math_PI_def js_sub_def)
  have r_2: "js_div_by (Num (4835904713300691 / 2 ^ 44)) 180 = Num (6877731147805427 / 2 ^ 52)"
    using fround_binade [of 0 "(4835904713300691 / 2 ^ 44) / 180"]
    by (simp add: round_half_even_def Math_PI_def js_sub_def)
  have s_s: "js_mul (Num (8998626396882423 / 2 ^ 53)) (Num (8998626396882423 / 2 ^ 53)) = Num (4495030849242473 / 2 ^ 52)"
    using fround_binade [of "- 1" "(8998626396882423 / 2 ^ 53) * (8998626396882423 / 2 ^ 53)"]
    by (simp add: round_half_even_def Math_PI_def js_sub_def)
  have c_c: "js_mul (Num (3143108106954521 / 2 ^ 56)) (Num (3143108106954521 / 2 ^ 56)) = Num (4387214401548093 / 2 ^ 61)"
    using fround_binade [of "- 10" "(3143108106954521 / 2 ^ 56) * (3143108106954521 / 2 ^ 56)"]
    by (simp add: round_half_even_def Math_PI_def js_sub_def)
  have c_c_s: "js_mul (Num (4387214401548093 / 2 ^ 61)) (Num 1) = Num (4387214401548093 / 2 ^ 61)"
    using fround_binade [of "- 10" "(4387214401548093 / 2 ^ 61) * 1"]
    by (simp add: round_half_even_def Math_PI_def js_sub_def)
  have a_sum: "js_add (Num (4495030849242473 / 2 ^ 52)) (Num (4387214401548093 / 2 ^ 61)) = Num (4503599627370497 / 2 ^ 52)"
    using fround_binade [of 0 "(4495030849242473 / 2 ^ 52) + (4387214401548093 / 2 ^ 61)"]
    by (simp add: round_half_even_def Math_PI_def js_sub_def)
  have sines:
    "sample_sin (Num (6877731147805427 / 2 ^ 52)) = Num (8998626396882423 / 2 ^ 53)"
    "sample_sin (Num (884279719003555 / 2 ^ 49)) = Num 1"
    by (simp_all add: sample_sin_def)
  have cosines:
    "sample_cos (Num (- 6877731147805427 / 2 ^ 52)) = Num (3143108106954521 / 2 ^ 56)"
    "sample_cos (Num (6877731147805427 / 2 ^ 52)) = Num (3143108106954521 / 2 ^ 56)"
    by (simp_all add: sample_cos_def)
  show ?thesis
    unfolding haversine_a_def Let_def toRad_def sample_libm_sel
    by (simp only: d_lat m_lat r_lat h_lat d_lon m_lon r_lon h_lon m_1 r_1 m_2 r_2
        sines cosines s_s c_c c_c_s a_sum)
qed

lemma one_minus_a_antipode:
  "js_sub (Num 1) (Num (4503599627370497 / 2 ^ 52)) = Num (- 1 / 2 ^ 52)"
proof -
  have one_a: "js_sub (Num 1) (Num (4503599627370497 / 2 ^ 52)) = Num (- 1 / 2 ^ 52)"
    using fround_binade [of "- 52" "1 + - (4503599627370497 / 2 ^ 52)"]
    by (simp add: round_half_even_def Math_PI_def js_sub_def)
  show ?thesis by (rule one_a)
qed

lemma haversineMeters_antipode: "haversineMeters sample_libm (- 87.5) (- 180) 87.5 0 = NaN"
proof -
  have r: "Math_sqrt (Num (- 1 / 2 ^ 52)) = NaN" by simp
  have t: "sample_atan2 y NaN = NaN" for y by (simp add: sample_atan2_def)
  show ?thesis
    unfolding haversineMeters_def Let_def sample_libm_sel haversine_a_antipode
      one_minus_a_antipode r t
    by simp
qed

text \<open>
  Claim C3. The structure of the fallback is as claimed (\<open>fallback_structure\<close>), but the
  number it stores is not always the great-circle distance. For an origin at 87.5 S
  180 W and a place opposite to it at 87.5 N 0 E (great-circle distance \<open>\<pi> R\<close>,
  about 20015 km) the constant \<open>a\<close> of \<open>haversineMeters\<close> is \<open>1 + 2^-52\<close>, so
  \<open>1 - a\<close> is negative, its square root is \<open>NaN\<close>, and the place gets
  \<open>distanceMeters\<close> \<open>NaN\<close> and the empty \<open>distanceText\<close>: with the flag off
  (whatever the provider would answer), and with the flag on when the provider throws,
  answers under a status other than \<open>OK\<close>, or answers with no response. With no
  origin the fields stay absent.
\<close>

theorem fallback_antipode_not_a_number:
  "haversine_a sample_libm (- 87.5) (- 180) 87.5 0 = Num (1 + 1 / 2 ^ 52) \<and>
   Math_sqrt (js_sub (Num 1) (haversine_a sample_libm (- 87.5) (- 180) 87.5 0)) = NaN \<and>
   haversineMeters sample_libm (- 87.5) (- 180) 87.5 0 = NaN \<and>
   computeDistancesIfEnabled sample_libm dm_refused [origin_south] [station_far] Map.empty =
     [station_far\<lparr>distanceMeters := JNumber NaN, distanceText := Some ''''\<rparr>] \<and>
   computeDistancesIfEnabled sample_libm dm_throws [origin_south] [station_far] flags_on =
     [station_far\<lparr>distanceMeters := JNumber NaN, distanceText := Some ''''\<rparr>] \<and>
   computeDistancesIfEnabled sample_libm dm_refused [origin_south] [station_far] flags_on =
     [station_far\<lparr>distanceMeters := JNumber NaN, distanceText := Some ''''\<rparr>] \<and>
   computeDistancesIfEnabled sample_libm dm_down [origin_south] [station_far] flags_on =
     [station_far\<lparr>distanceMeters := JNumber NaN, distanceText := Some ''''\<rparr>] \<and>
   computeDistancesIfEnabled sample_libm dm_refused [] [station_far] flags_on =
     [station_far\<lparr>distanceMeters := JUndefined, distanceText := None\<rparr>]"
proof -
  have a: "haversine_a sample_libm (- 87.5) (- 180) 87.5 0 = Num (1 + 1 / 2 ^ 52)"
    unfolding haversine_a_antipode by simp
  have b: "Math_sqrt (js_sub (Num 1) (haversine_a sample_libm (- 87.5) (- 180) 87.5 0)) = NaN"
    unfolding haversine_a_antipode one_minus_a_antipode by simp
  have c: "enrich_haversine sample_libm (Some origin_south) station_far =
             station_far\<lparr>distanceMeters := JNumber NaN, distanceText := Some ''''\<rparr>"
    by (simp add: enrich_haversine_def origin_south_def station_far_def
        haversineMeters_antipode [simplified])
  have d: "computeDistancesIfEnabled sample_libm dm_refused [origin_south] [station_far] Map.empty =
             [enrich_haversine sample_libm (Some origin_south) station_far]"
    by (simp add: computeDistancesIfEnabled_def haversine_fallback_def first_origin_def)
  have e: "computeDistancesIfEnabled sample_libm dm_throws [origin_south] [station_far] flags_on =
             [enrich_haversine sample_libm (Some origin_south) station_far]"
       "computeDistancesIfEnabled sample_libm dm_refused [origin_south] [station_far] flags_on =
             [enrich_haversine sample_libm (Some origin_south) station_far]"
       "computeDistancesIfEnabled sample_libm dm_down [origin_south] [station_far] flags_on =
             [enrich_haversine sample_libm (Some origin_south) station_far]"
    by (simp_all add: computeDistancesIfEnabled_def haversine_fallback_def first_origin_def
        flags_on_def getDistanceMatrix_def dm_down_def dm_throws_def dm_refused_def)
  have f: "computeDistancesIfEnabled sample_libm dm_refused [] [station_far] flags_on =
             [station_far\<lparr>distanceMeters := JUndefined, distanceText := None\<rparr>]"
    by (simp add: computeDistancesIfEnabled_def haversine_fallback_def first_origin_def
        enrich_haversine_def)
  show ?thesis
    unfolding d e c f using a b haversineMeters_antipode by simp
qed

text \<open>
  Claim C4. When the Distance Matrix call succeeds for the request built from the places
  in their order, the result has the length of the input, and the place at index \<open>i\<close>
  is the input place at \<open>i\<close> with the distance value, the distance text and the
  duration text of element \<open>i\<close> of the first row.
\<close>

theorem matrix_alignment:
  assumes "flags ''enableDistanceMatrix'' = Some True"
    and "first_origin origins = Some og"
    and "dm \<lparr>dm_origin = og, dm_destinations = map destination_of places\<rparr> =
           DMCallback (Some response) ''OK''"
    and "row_elements response = els"
    and "i < length places" and "i < length els"
    and "el_distance (els ! i) = Some d" and "dist_value d = JNumber x"
    and "dist_text d = Some t" and "t \<noteq> []"
  shows "length (computeDistancesIfEnabled lm dm origins places flags) = length places \<and>
         computeDistancesIfEnabled lm dm origins places flags ! i =
           (places ! i)\<lparr>distanceMeters := JNumber x, distanceText := Some t,
                         durationText := el_duration_text (els ! i)\<rparr>"
proof -
  have ne: "places \<noteq> []" using assms(5) by auto
  have ok: "getDistanceMatrix dm og places = Inr response"
    using assms(3) by (simp add: getDistanceMatrix_ok)
  have eq: "computeDistancesIfEnabled lm dm origins places flags =
              map (\<lambda>(p, idx). enrich_dm els p idx) (zip places [0 ..< length places])"
    using computeDistances_matrix [of flags origins og places dm response]
      assms(1) assms(2) ne ok assms(4) by simp
  have el: "enrich_dm els (places ! i) i =
              (places ! i)\<lparr>distanceMeters := JNumber x, distanceText := Some t,
                            durationText := el_duration_text (els ! i)\<rparr>"
    using assms(6-10) by (simp add: enrich_dm_def element_at_def str_or_def)
  show ?thesis
    unfolding eq using assms(5) el by simp
qed

theorem matrix_alignment_witness:
  "length (computeDistancesIfEnabled sample_libm dm_partial [origin0] [station_a, station_b] flags_on) = 2 \<and>
   computeDistancesIfEnabled sample_libm dm_partial [origin0] [station_a, station_b] flags_on ! 0 =
     station_a\<lparr>distanceMeters := JNumber (Num 1200), distanceText := Some ''1.2 km'',
               durationText := Some ''3 mins''\<rparr>"
  using matrix_alignment [of flags_on "[origin0]" origin0 dm_partial "[station_a, station_b]"
      "\<lparr>rows =
          [[\<lparr>el_status = ''OK'',
             el_distance = Some \<lparr>dist_value = JNumber (Num 1200), dist_text = Some ''1.2 km''\<rparr>,
             el_duration_text = Some ''3 mins''\<rparr>,
            \<lparr>el_status = ''NOT_FOUND'', el_distance = None, el_duration_text = None\<rparr>]]\<rparr>"
      "[\<lparr>el_status = ''OK'',
             el_distance = Some \<lparr>dist_value = JNumber (Num 1200), dist_text = Some ''1.2 km''\<rparr>,
             el_duration_text = Some ''3 mins''\<rparr>,
            \<lparr>el_status = ''NOT_FOUND'', el_distance = None, el_duration_text = None\<rparr>]"
      0 "\<lparr>dist_value = JNumber (Num 1200), dist_text = Some ''1.2 km''\<rparr>" "Num 1200" "''1.2 km''"]
  by (simp add: flags_on_def first_origin_def dm_partial_def row_elements_def)

text \<open>
  Claim C7, as stated, fails: with a successful response whose second element carries
  an error code and no distance, the second place gets no distance (the haversine
  fallback would give it one) and the first place keeps the provider's duration (the
  fallback gives none). The result is not the haversine fallback of the batch.
\<close>

theorem partial_failure_counterexample:
  "distanceMeters (computeDistancesIfEnabled sample_libm dm_partial [origin0] [station_a, station_b] flags_on ! 1)
     = JUndefined \<and>
   distanceMeters (haversine_fallback sample_libm [origin0] [station_a, station_b] ! 1) \<noteq> JUndefined \<and>
   durationText (computeDistancesIfEnabled sample_libm dm_partial [origin0] [station_a, station_b] flags_on ! 0)
     = Some ''3 mins'' \<and>
   durationText (haversine_fallback sample_libm [origin0] [station_a, station_b] ! 0) = None \<and>
   computeDistancesIfEnabled sample_libm dm_partial [origin0] [station_a, station_b] flags_on \<noteq>
     haversine_fallback sample_libm [origin0] [station_a, station_b]"
proof -
  let ?out = "computeDistancesIfEnabled sample_libm dm_partial [origin0] [station_a, station_b] flags_on"
  let ?fb = "haversine_fallback sample_libm [origin0] [station_a, station_b]"
  have a: "distanceMeters (?out ! 1) = JUndefined"
    by (simp add: computeDistancesIfEnabled_def flags_on_def first_origin_def
        getDistanceMatrix_def dm_partial_def row_elements_def enrich_dm_def element_at_def
        str_or_def)
  have b: "distanceMeters (?fb ! 1) \<noteq> JUndefined"
    by (simp add: haversine_fallback_def first_origin_def enrich_haversine_def station_b_def
        Let_def)
  have c: "durationText (?out ! 0) = Some ''3 mins''"
    by (simp add: computeDistancesIfEnabled_def flags_on_def first_origin_def
        getDistanceMatrix_def dm_partial_def row_elements_def enrich_dm_def element_at_def
        str_or_def)
  have d: "durationText (?fb ! 0) = None"
    by (simp add: haversine_fallback_def first_origin_def enrich_haversine_def station_a_def
        Let_def)
  from a b have "?out \<noteq> ?fb" by metis
  with a b c d show ?thesis by blast
qed

lemma enrich_dm_no_distance:
  assumes "element_at els i = None \<or> (\<exists>e. element_at els i = Some e \<and> el_distance e = None)"
  shows "distanceMeters (enrich_dm els p i) = JUndefined \<and> distanceText (enrich_dm els p i) = None"
  using assms by (auto simp: enrich_dm_def str_or_def Let_def)

lemma enrich_dm_number:
  assumes "element_at els i = Some e" "el_distance e = Some d" "dist_value d = JNumber x"
  shows "distanceMeters (enrich_dm els p i) = JNumber x \<and>
         distanceText (enrich_dm els p i) =
           str_or (dist_text d) (Some (formatDistance (JNumber x)))"
  using assms by (simp add: enrich_dm_def Let_def)

lemma enrich_dm_duration:
  "durationText (enrich_dm els p i) =
     (case element_at els i of None \<Rightarrow> None | Some e \<Rightarrow> el_duration_text e)"
  by (simp add: enrich_dm_def Let_def)

lemma enrich_dm_keeps:
  "place_id (enrich_dm els p i) = place_id p"
  "place_position (enrich_dm els p i) = place_position p"
  by (auto simp: enrich_dm_def place_position_def Let_def split: option.splits geo_location.splits)

text \<open>
  Claim C7, amended. When the response is successful as a whole, no place falls back to
  haversine: each place is enriched from its own element of the first row. A place
  whose element is missing or has no distance gets \<open>distanceMeters\<close> and
  \<open>distanceText\<close> absent; a place whose element has a numeric distance value gets
  that value, and as text the provider's text, or the rendering of the value when the
  provider's text is missing or empty; \<open>durationText\<close> is what the element gives.
\<close>

theorem matrix_per_element:
  assumes "flags ''enableDistanceMatrix'' = Some True"
    and "first_origin origins = Some og"
    and "dm \<lparr>dm_origin = og, dm_destinations = map destination_of places\<rparr> =
           DMCallback (Some response) ''OK''"
    and "i < length places"
  shows "length (computeDistancesIfEnabled lm dm origins places flags) = length places \<and>
         (element_at (row_elements response) i = None \<or>
          (\<exists>e. element_at (row_elements response) i = Some e \<and> el_distance e = None) \<longrightarrow>
            distanceMeters (computeDistancesIfEnabled lm dm origins places flags ! i) = JUndefined \<and>
            distanceText (computeDistancesIfEnabled lm dm origins places flags ! i) = None) \<and>
         (\<forall>e d x. element_at (row_elements response) i = Some e \<and> el_distance e = Some d \<and>
                  dist_value d = JNumber x \<longrightarrow>
            distanceMeters (computeDistancesIfEnabled lm dm origins places flags ! i) = JNumber x \<and>
            distanceText (computeDistancesIfEnabled lm dm origins places flags ! i) =
              str_or (dist_text d) (Some (formatDistance (JNumber x)))) \<and>
         durationText (computeDistancesIfEnabled lm dm origins places flags ! i) =
           (case element_at (row_elements response) i of
              None \<Rightarrow> None
            | Some e \<Rightarrow> el_duration_text e) \<and>
         place_id (computeDistancesIfEnabled lm dm origins places flags ! i) = place_id (places ! i) \<and>
         place_position (computeDistancesIfEnabled lm dm origins places flags ! i) =
           place_position (places ! i)"
proof -
  let ?els = "row_elements response"
  have ne: "places \<noteq> []" using assms(4) by auto
  have ok: "getDistanceMatrix dm og places = Inr response"
    using assms(3) by (simp add: getDistanceMatrix_ok)
  have eq: "computeDistancesIfEnabled lm dm origins places flags =
              map (\<lambda>(p, idx). enrich_dm ?els p idx) (zip places [0 ..< length places])"
    using computeDistances_matrix [of flags origins og places dm response]
      assms(1) assms(2) ne ok by simp
  have nth: "computeDistancesIfEnabled lm dm origins places flags ! i = enrich_dm ?els (places ! i) i"
    unfolding eq using assms(4) by simp
  have len: "length (computeDistancesIfEnabled lm dm origins places flags) = length places"
    unfolding eq by simp
  show ?thesis
    unfolding nth
    using len enrich_dm_no_distance [of ?els i "places ! i"]
      enrich_dm_number [of ?els i _ _ _ "places ! i"]
    by (simp add: enrich_dm_duration enrich_dm_keeps)
qed

theorem matrix_per_element_witness:
  "distanceMeters (computeDistancesIfEnabled sample_libm dm_partial [origin0] [station_a, station_b] flags_on ! 1)
     = JUndefined \<and>
   distanceText (computeDistancesIfEnabled sample_libm dm_partial [origin0] [station_a, station_b] flags_on ! 1)
     = None \<and>
   durationText (computeDistancesIfEnabled sample_libm dm_partial [origin0] [station_a, station_b] flags_on ! 1)
     = None"
  using matrix_per_element [of flags_on "[origin0]" origin0 dm_partial "[station_a, station_b]"
      "\<lparr>rows =
          [[\<lparr>el_status = ''OK'',
             el_distance = Some \<lparr>dist_value = JNumber (Num 1200), dist_text = Some ''1.2 km''\<rparr>,
             el_duration_text = Some ''3 mins''\<rparr>,
            \<lparr>el_status = ''NOT_FOUND'', el_distance = None, el_duration_text = None\<rparr>]]\<rparr>" 1]
  by (simp add: flags_on_def first_origin_def dm_partial_def row_elements_def element_at_def)


section \<open>Properties of the marker and fetch cycle\<close>

lemma wf_markers_iff:
  "wf_markers v \<longleftrightarrow>
     (\<forall>h \<in> set (markersRef v). h < length (heap v)) \<and>
     (\<forall>h < length (heap v). mk_map (heap v ! h) \<longrightarrow> h \<in> set (markersRef v))"
  by (auto simp: wf_markers_def list_all_iff)

lemma one_alive_iff:
  "one_alive v \<longleftrightarrow>
     (\<forall>n < length (cycles v). cy_alive (cycles v ! n) \<longrightarrow> cleanup v = Some n)"
  by (auto simp: one_alive_def list_all_iff)

lemma length_set_marker: "length (set_marker f h hp) = length hp"
  by (simp add: set_marker_def)

lemma length_fold_set_marker: "length (fold (set_marker f) hs hp) = length hp"
  by (induction hs arbitrary: hp) (simp_all add: length_set_marker)

lemma set_marker_nth:
  "set_marker f h hp ! j = (if j = h \<and> h < length hp then f (hp ! h) else hp ! j)"
proof (cases "h < length hp")
  case True
  then show ?thesis by (simp add: set_marker_def nth_list_update)
next
  case False
  then have "hp[h := f (hp ! h)] = hp" by (simp add: list_update_beyond)
  with False show ?thesis by (simp add: set_marker_def)
qed

lemma mk_place_set_marker:
  assumes "\<And>m. mk_place (f m) = mk_place m"
  shows "mk_place (set_marker f h hp ! j) = mk_place (hp ! j)"
  using assms by (simp add: set_marker_nth)

lemma mk_place_fold_set_marker:
  assumes "\<And>m. mk_place (f m) = mk_place m"
  shows "mk_place (fold (set_marker f) hs hp ! j) = mk_place (hp ! j)"
  using assms by (induction hs arbitrary: hp) (simp_all add: mk_place_set_marker)

lemma mk_map_fold_detach:
  assumes "j < length hp"
  shows "mk_map (fold (set_marker (\<lambda>m. m\<lparr>mk_map := False\<rparr>)) hs hp ! j) \<longleftrightarrow>
           mk_map (hp ! j) \<and> j \<notin> set hs"
  using assms
proof (induction hs arbitrary: hp)
  case Nil
  then show ?case by simp
next
  case (Cons h hs)
  have "j < length (set_marker (\<lambda>m. m\<lparr>mk_map := False\<rparr>) h hp)"
    using Cons.prems by (simp add: length_set_marker)
  from Cons.IH [OF this] show ?case
    using Cons.prems by (auto simp: set_marker_nth)
qed

lemma paint_heap:
  "heap (paint_markers ps v) =
     fold (set_marker (\<lambda>m. m\<lparr>mk_map := False\<rparr>)) (markersRef v) (heap v) @ map new_marker ps"
  by (simp add: paint_markers_def Let_def)

lemma paint_markersRef:
  "markersRef (paint_markers ps v) = [length (heap v) ..< length (heap v) + length ps]"
  by (simp add: paint_markers_def Let_def length_fold_set_marker)

lemma paint_length_heap: "length (heap (paint_markers ps v)) = length (heap v) + length ps"
  by (simp add: paint_heap length_fold_set_marker)

lemma paint_old_marker:
  assumes "h < length (heap v)"
  shows "heap (paint_markers ps v) ! h =
           fold (set_marker (\<lambda>m. m\<lparr>mk_map := False\<rparr>)) (markersRef v) (heap v) ! h"
  using assms by (simp add: paint_heap nth_append length_fold_set_marker)

lemma paint_new_marker:
  assumes "j < length ps"
  shows "heap (paint_markers ps v) ! (length (heap v) + j) = new_marker (ps ! j)"
  using assms by (simp add: paint_heap nth_append length_fold_set_marker)

lemma painted_paint: "painted (paint_markers ps v) = ps"
proof -
  let ?n = "length (heap v)"
  have "painted (paint_markers ps v) =
          map (\<lambda>h. mk_place (heap (paint_markers ps v) ! h)) [?n ..< ?n + length ps]"
    by (simp add: painted_def paint_markersRef)
  also have "\<dots> = map (\<lambda>j. mk_place (heap (paint_markers ps v) ! (?n + j))) [0 ..< length ps]"
  proof -
    have "[?n ..< ?n + length ps] = map (\<lambda>j. ?n + j) [0 ..< length ps]"
      using map_add_upt [of ?n "length ps"] by (simp add: add.commute)
    then show ?thesis by (simp only: map_map comp_def)
  qed
  also have "\<dots> = map (\<lambda>j. ps ! j) [0 ..< length ps]"
    by (rule map_cong) (simp_all add: paint_new_marker new_marker_def)
  also have "\<dots> = ps" by (rule map_nth)
  finally show ?thesis .
qed

lemma paint_old_off_map:
  assumes "wf_markers v" "h < length (heap v)"
  shows "\<not> mk_map (heap (paint_markers ps v) ! h)"
  using assms by (auto simp: paint_old_marker mk_map_fold_detach wf_markers_iff)

lemma paint_new_on_map:
  assumes "length (heap v) \<le> h" "h < length (heap v) + length ps"
  shows "mk_map (heap (paint_markers ps v) ! h)"
proof -
  define j where "j = h - length (heap v)"
  have j: "h = length (heap v) + j" "j < length ps"
    using assms by (simp_all add: j_def)
  show ?thesis
    unfolding j(1) using j(2) by (simp add: paint_new_marker new_marker_def)
qed

lemma on_map_paint:
  assumes "wf_markers v"
  shows "on_map (paint_markers ps v) = markersRef (paint_markers ps v)"
proof -
  let ?n = "length (heap v)" and ?P = "\<lambda>h. mk_map (heap (paint_markers ps v) ! h)"
  have split: "[0 ..< ?n + length ps] = [0 ..< ?n] @ [?n ..< ?n + length ps]"
    by (rule upt_add_eq_append) simp
  have old: "filter ?P [0 ..< ?n] = []"
    using paint_old_off_map [OF assms] by (simp add: filter_empty_conv)
  have new: "filter ?P [?n ..< ?n + length ps] = [?n ..< ?n + length ps]"
    using paint_new_on_map by (simp add: filter_id_conv)
  show ?thesis
    by (simp only: on_map_def paint_length_heap paint_markersRef split filter_append old new) simp
qed

lemma wf_markers_paint:
  assumes "wf_markers v"
  shows "wf_markers (paint_markers ps v)"
proof -
  have a: "\<forall>h \<in> set (markersRef (paint_markers ps v)). h < length (heap (paint_markers ps v))"
    by (simp add: paint_markersRef paint_length_heap)
  have b: "\<forall>h < length (heap (paint_markers ps v)).
             mk_map (heap (paint_markers ps v) ! h) \<longrightarrow> h \<in> set (markersRef (paint_markers ps v))"
  proof (intro allI impI)
    fix h
    assume h: "h < length (heap (paint_markers ps v))"
      and m: "mk_map (heap (paint_markers ps v) ! h)"
    have "\<not> h < length (heap v)"
      using paint_old_off_map [OF assms, of h ps] m by blast
    then show "h \<in> set (markersRef (paint_markers ps v))"
      using h by (simp add: paint_markersRef paint_length_heap)
  qed
  from a b show ?thesis by (simp add: wf_markers_iff)
qed

text \<open>
  Claim C5, amended. After painting result set \<open>A\<close> and then result set \<open>B\<close>, the
  tracked markers are one marker for each place of \<open>B\<close>, in the order of \<open>B\<close>; the
  markers on the map are exactly the tracked ones, so the identifiers on the map are
  those of \<open>B\<close>; no marker made for \<open>A\<close> is among them, and every marker made for
  \<open>A\<close> has been taken off the map: a place that is in both sets gets a new marker.
\<close>

theorem repaint_markers:
  assumes "wf_markers v"
  shows "painted (paint_markers B (paint_markers A v)) = B \<and>
         on_map (paint_markers B (paint_markers A v)) =
           markersRef (paint_markers B (paint_markers A v)) \<and>
         map (\<lambda>h. place_id (mk_place (heap (paint_markers B (paint_markers A v)) ! h)))
             (on_map (paint_markers B (paint_markers A v))) = map place_id B \<and>
         set (markersRef (paint_markers A v)) \<inter> set (markersRef (paint_markers B (paint_markers A v))) = {} \<and>
         (\<forall>h \<in> set (markersRef (paint_markers A v)).
            \<not> mk_map (heap (paint_markers B (paint_markers A v)) ! h))"
proof -
  let ?v1 = "paint_markers A v" and ?v2 = "paint_markers B (paint_markers A v)"
  have wf1: "wf_markers ?v1" using assms by (rule wf_markers_paint)
  have p: "painted ?v2 = B" by (rule painted_paint)
  have o: "on_map ?v2 = markersRef ?v2" using wf1 by (rule on_map_paint)
  have ids: "map (\<lambda>h. place_id (mk_place (heap ?v2 ! h))) (on_map ?v2) = map place_id B"
  proof -
    have "map place_id (painted ?v2) = map place_id B" by (simp only: p)
    then show ?thesis by (simp add: o painted_def comp_def)
  qed
  have d: "set (markersRef ?v1) \<inter> set (markersRef ?v2) = {}"
    by (auto simp: paint_markersRef paint_length_heap)
  have off: "\<forall>h \<in> set (markersRef ?v1). \<not> mk_map (heap ?v2 ! h)"
    using paint_old_off_map [OF wf1, of _ B] wf1 by (auto simp: wf_markers_iff)
  from p o ids d off show ?thesis by blast
qed

lemma wf_markers_init: "wf_markers init_view"
  by (simp add: wf_markers_iff init_view_def)

theorem repaint_markers_witness:
  "wf_markers init_view \<and>
   painted (paint_markers [station_b] (paint_markers [station_a, station_b] init_view)) = [station_b] \<and>
   on_map (paint_markers [station_b] (paint_markers [station_a, station_b] init_view)) =
     markersRef (paint_markers [station_b] (paint_markers [station_a, station_b] init_view))"
  using repaint_markers [of init_view "[station_b]" "[station_a, station_b]"] wf_markers_init
  by simp

text \<open>
  Claim C5, as stated, fails for a place in both result sets: after \<open>A = [a, b]\<close>
  the marker of \<open>b\<close> is object 1; after \<open>B = [b]\<close> it is the new object 2, and
  object 1 is off the map.
\<close>

theorem repaint_recreates_counterexample:
  "marker_of (paint_markers [station_a, station_b] init_view) ''b'' = Some 1 \<and>
   marker_of (paint_markers [station_b] (paint_markers [station_a, station_b] init_view)) ''b''
     = Some 2 \<and>
   \<not> mk_map (heap (paint_markers [station_b] (paint_markers [station_a, station_b] init_view)) ! 1)"
  by (simp add: marker_of_def paint_markers_def init_view_def set_marker_def new_marker_def
      station_a_def station_b_def Let_def)

text \<open>
  Claim C6 at a failing input: with markers painted for the stations \<open>a\<close> and \<open>b\<close>
  (both titled) and \<open>b\<close> selected, the highlight effect animates the marker of
  \<open>a\<close>, the first marker with a title, and leaves the marker of \<open>b\<close> without
  animation: the predicate of \<open>find\<close> never compares a marker with the selected
  identifier.
\<close>

theorem highlight_bounces_first_titled:
  "place_id (mk_place (heap (highlight_effect True (Some ''b'')
      (paint_markers [station_a, station_b] init_view)) ! 0)) = ''a'' \<and>
   mk_animation (heap (highlight_effect True (Some ''b'')
      (paint_markers [station_a, station_b] init_view)) ! 0) = Some BOUNCE \<and>
   place_id (mk_place (heap (highlight_effect True (Some ''b'')
      (paint_markers [station_a, station_b] init_view)) ! 1)) = ''b'' \<and>
   mk_animation (heap (highlight_effect True (Some ''b'')
      (paint_markers [station_a, station_b] init_view)) ! 1) = None"
  by (simp add: highlight_effect_def paint_markers_def init_view_def set_marker_def new_marker_def
      station_a_def station_b_def truthy_def Let_def)

lemma resume_failed:
  assumes "n < length (cycles v)" "cy_alive (cycles v ! n)"
    and "fetch_and_enrich lm (cycles v ! n) nearbySearch dm = Inl e"
  shows "fetchStations_resume lm n nearbySearch dm v =
           v\<lparr>app := (handleStationsUpdate (Some []) (Some failure_message) (app v))\<lparr>loading := False\<rparr>\<rparr>"
  using assms by (simp add: fetchStations_resume_def Let_def)

lemma fetch_and_enrich_Inl:
  "fetch_and_enrich lm cy nearbySearch dm = Inl e \<longleftrightarrow>
     searchNearbyGasStations nearbySearch (cy_center cy) 5000 50 = Inl e"
  by (simp add: fetch_and_enrich_def split: sum.splits)

text \<open>
  Claim C2, amended. When the place query of the current run fails, the controller
  reports the message \<open>failure_message\<close> to the caller together with an empty list:
  the station list of the application becomes empty, loading ends, and the markers
  stay as they were.
\<close>

theorem failed_cycle_publishes_empty:
  assumes "n < length (cycles v)" and "cy_alive (cycles v ! n)"
    and "searchNearbyGasStations nearbySearch (cy_center (cycles v ! n)) 5000 50 = Inl e"
  shows "listError (app (fetchStations_resume lm n nearbySearch dm v)) = failure_message \<and>
         stations (app (fetchStations_resume lm n nearbySearch dm v)) = [] \<and>
         loading (app (fetchStations_resume lm n nearbySearch dm v)) = False \<and>
         heap (fetchStations_resume lm n nearbySearch dm v) = heap v \<and>
         markersRef (fetchStations_resume lm n nearbySearch dm v) = markersRef v"
proof -
  have "fetch_and_enrich lm (cycles v ! n) nearbySearch dm = Inl e"
    using assms(3) by (simp add: fetch_and_enrich_Inl)
  from resume_failed [OF assms(1) assms(2) this] show ?thesis
    by (simp add: handleStationsUpdate_def)
qed

lemma run_append: "run lm v (es @ fs) = run lm (run lm v es) fs"
  by (simp add: run_def)

lemma run_Nil: "run lm v [] = v"
  by (simp add: run_def)

lemma run_Cons: "run lm v (e # es) = run lm (step lm v e) es"
  by (simp add: run_def)

lemma paint_keeps:
  "cycles (paint_markers ps v) = cycles v"
  "cleanup (paint_markers ps v) = cleanup v"
  "mapRef (paint_markers ps v) = mapRef v"
  "app (paint_markers ps v) = app v"
  by (simp_all add: paint_markers_def Let_def)

lemma resume_keeps:
  "cycles (fetchStations_resume lm n ns dm v) = cycles v"
  "cleanup (fetchStations_resume lm n ns dm v) = cleanup v"
  "mapRef (fetchStations_resume lm n ns dm v) = mapRef v"
  by (simp_all add: fetchStations_resume_def Let_def paint_keeps split: sum.splits)

lemma highlight_keeps:
  "cycles (highlight_effect r sel v) = cycles v"
  "cleanup (highlight_effect r sel v) = cleanup v"
  "mapRef (highlight_effect r sel v) = mapRef v"
  "app (highlight_effect r sel v) = app v"
  "markersRef (highlight_effect r sel v) = markersRef v"
  by (simp_all add: highlight_effect_def Let_def split: option.splits)

lemma timer_keeps:
  "cycles (timer_fires v) = cycles v"
  "cleanup (timer_fires v) = cleanup v"
  "mapRef (timer_fires v) = mapRef v"
  "app (timer_fires v) = app v"
  "markersRef (timer_fires v) = markersRef v"
  by (simp_all add: timer_fires_def split: list.splits)

lemma painted_highlight: "painted (highlight_effect r sel v) = painted v"
  by (simp add: painted_def highlight_effect_def Let_def mk_place_set_marker
      mk_place_fold_set_marker split: option.splits)

lemma painted_timer: "painted (timer_fires v) = painted v"
  by (simp add: painted_def timer_fires_def mk_place_set_marker split: list.splits)

lemma stale_resume:
  assumes "\<not> (n < length (cycles v) \<and> cy_alive (cycles v ! n))"
  shows "published (fetchStations_resume lm n ns dm v) = published v"
  using assms
  by (auto simp: fetchStations_resume_def published_def Let_def split: sum.splits)

lemma stale_resume_painted:
  assumes "\<not> (n < length (cycles v) \<and> cy_alive (cycles v ! n))"
  shows "painted (fetchStations_resume lm n ns dm v) = painted v"
  using stale_resume [OF assms, of lm ns dm] by (simp add: published_def painted_def)

lemma current_resume:
  assumes "n < length (cycles v)" "cy_alive (cycles v ! n)"
  shows "stations (app (fetchStations_resume lm n ns dm v)) =
           (case fetch_and_enrich lm (cycles v ! n) ns dm of Inr enriched \<Rightarrow> enriched | Inl _ \<Rightarrow> [])"
    and "listError (app (fetchStations_resume lm n ns dm v)) =
           (case fetch_and_enrich lm (cycles v ! n) ns dm of Inr _ \<Rightarrow> [] | Inl _ \<Rightarrow> failure_message)"
    and "fetch_and_enrich lm (cycles v ! n) ns dm = Inr enriched \<Longrightarrow>
           painted (fetchStations_resume lm n ns dm v) = enriched"
  using assms
  by (auto simp: fetchStations_resume_def Let_def handleStationsUpdate_def paint_keeps
      painted_def [of "_\<lparr>app := _\<rparr>"] painted_paint [unfolded painted_def]
      split: sum.splits)

lemma run_cleanup_cycles:
  "length (cycles (run_cleanup v)) = length (cycles v)"
  "mapRef (run_cleanup v) = mapRef v"
  "cleanup (run_cleanup v) = None"
  by (simp_all add: run_cleanup_def split: option.splits)

lemma run_cleanup_none_alive:
  assumes "one_alive v" "n < length (cycles v)"
  shows "\<not> cy_alive (cycles (run_cleanup v) ! n)"
proof (cases "cleanup v")
  case None
  then show ?thesis using assms by (auto simp: run_cleanup_def one_alive_iff)
next
  case (Some k)
  show ?thesis
  proof (cases "n = k")
    case True
    then show ?thesis using Some assms by (simp add: run_cleanup_def)
  next
    case False
    then show ?thesis using Some assms by (auto simp: run_cleanup_def one_alive_iff)
  qed
qed

text \<open>Only run \<open>k\<close> is alive, and it is the run \<open>cy\<close>.\<close>

lemma fetch_effect_starts:
  assumes "one_alive v" "mapRef v"
  shows "length (cycles (fetch_effect True (Some c) u fg v)) = Suc (length (cycles v))"
    and "cycles (fetch_effect True (Some c) u fg v) ! length (cycles v) =
           \<lparr>cy_alive = True, cy_center = c, cy_userLocation = u, cy_flags = fg\<rparr>"
    and "\<forall>j < length (cycles v). \<not> cy_alive (cycles (fetch_effect True (Some c) u fg v) ! j)"
    and "cleanup (fetch_effect True (Some c) u fg v) = Some (length (cycles v))"
proof -
  let ?w = "run_cleanup v" and ?v' = "fetch_effect True (Some c) u fg v"
  have v': "?v' = ?w\<lparr>cycles := cycles ?w @
                       [\<lparr>cy_alive = True, cy_center = c, cy_userLocation = u, cy_flags = fg\<rparr>],
                     cleanup := Some (length (cycles ?w)),
                     app := (app ?w)\<lparr>loading := True\<rparr>\<rparr>"
    using assms(2) by (simp add: fetch_effect_def Let_def run_cleanup_cycles)
  show "length (cycles ?v') = Suc (length (cycles v))"
    by (simp add: v' run_cleanup_cycles)
  show "cycles ?v' ! length (cycles v) =
           \<lparr>cy_alive = True, cy_center = c, cy_userLocation = u, cy_flags = fg\<rparr>"
    using run_cleanup_cycles(1) [of v] by (simp add: v' nth_append)
  show "\<forall>j < length (cycles v). \<not> cy_alive (cycles ?v' ! j)"
    using run_cleanup_none_alive [OF assms(1)] run_cleanup_cycles(1) [of v]
    by (simp add: v' nth_append)
  show "cleanup ?v' = Some (length (cycles v))"
    by (simp add: v' run_cleanup_cycles)
qed

lemma one_alive_fetch_effect:
  assumes "one_alive v"
  shows "one_alive (fetch_effect r center u fg v)"
proof -
  let ?w = "run_cleanup v"
  have w: "\<forall>n < length (cycles ?w). \<not> cy_alive (cycles ?w ! n)"
    using run_cleanup_none_alive [OF assms] by (simp add: run_cleanup_cycles)
  then have ow: "one_alive ?w" by (simp add: one_alive_iff)
  show ?thesis
  proof (cases center)
    case None
    then show ?thesis using ow by (simp add: fetch_effect_def Let_def)
  next
    case (Some c)
    show ?thesis
    proof (cases "\<not> r \<or> \<not> mapRef ?w")
      case True
      then show ?thesis using ow Some by (auto simp: fetch_effect_def Let_def)
    next
      case False
      then show ?thesis
        using w Some
        by (auto simp: fetch_effect_def Let_def one_alive_iff nth_append less_Suc_eq)
    qed
  qed
qed

lemma one_alive_step:
  assumes "one_alive v"
  shows "one_alive (step lm v e)"
proof (cases e)
  case (DepsChanged r c u fg)
  then show ?thesis using assms by (simp add: one_alive_fetch_effect)
next
  case (Resolved n ns dm)
  then show ?thesis using assms by (simp add: one_alive_iff resume_keeps)
next
  case (SelectionChanged r sel)
  then show ?thesis using assms by (simp add: one_alive_iff highlight_keeps)
next
  case TimerFired
  then show ?thesis using assms by (simp add: one_alive_iff timer_keeps)
qed

lemma one_alive_run:
  assumes "one_alive v"
  shows "one_alive (run lm v es)"
  using assms by (induction es arbitrary: v) (simp_all add: run_Nil run_Cons one_alive_step)

lemma mapRef_step: "mapRef (step lm v e) = mapRef v"
  by (cases e)
    (auto simp: fetch_effect_def Let_def run_cleanup_cycles resume_keeps highlight_keeps
      timer_keeps split: option.splits)

lemma mapRef_run: "mapRef (run lm v es) = mapRef v"
  by (induction es arbitrary: v) (simp_all add: run_Nil run_Cons mapRef_step)

lemma cycles_step:
  assumes "\<not> is_trigger e"
  shows "cycles (step lm v e) = cycles v"
  using assms by (cases e) (simp_all add: resume_keeps highlight_keeps timer_keeps)

lemma cycles_run:
  assumes "\<forall>e \<in> set es. \<not> is_trigger e"
  shows "cycles (run lm v es) = cycles v"
  using assms by (induction es arbitrary: v) (simp_all add: run_Nil run_Cons cycles_step)

text \<open>
  While only run \<open>k\<close> is alive, an event that neither starts a run nor resolves run
  \<open>k\<close> leaves the station list, the error and the painted places as they are.
\<close>

lemma settled_step:
  assumes "\<forall>j < length (cycles v). cy_alive (cycles v ! j) \<longrightarrow> j = k"
    and "\<not> is_trigger e" "\<not> resolves k e"
  shows "stations (app (step lm v e)) = stations (app v) \<and>
         listError (app (step lm v e)) = listError (app v) \<and>
         painted (step lm v e) = painted v"
proof (cases e)
  case (DepsChanged r c u fg)
  then show ?thesis using assms(2) by simp
next
  case (Resolved n ns dm)
  then have "n \<noteq> k" using assms(3) by simp
  then have stale: "\<not> (n < length (cycles v) \<and> cy_alive (cycles v ! n))"
    using assms(1) by blast
  from stale_resume [OF stale, of lm ns dm] stale_resume_painted [OF stale, of lm ns dm]
  show ?thesis using Resolved by (simp add: published_def)
next
  case (SelectionChanged r sel)
  then show ?thesis by (simp add: highlight_keeps painted_highlight)
next
  case TimerFired
  then show ?thesis by (simp add: timer_keeps painted_timer)
qed

lemma settled_run:
  assumes "\<forall>j < length (cycles v). cy_alive (cycles v ! j) \<longrightarrow> j = k"
    and "\<forall>e \<in> set es. \<not> is_trigger e \<and> \<not> resolves k e"
  shows "stations (app (run lm v es)) = stations (app v) \<and>
         listError (app (run lm v es)) = listError (app v) \<and>
         painted (run lm v es) = painted v"
  using assms
proof (induction es arbitrary: v)
  case Nil
  show ?case by (simp add: run_Nil)
next
  case (Cons e es)
  have e: "\<not> is_trigger e" "\<not> resolves k e" using Cons.prems(2) by simp_all
  have c: "cycles (step lm v e) = cycles v" using e(1) by (rule cycles_step)
  have "\<forall>j < length (cycles (step lm v e)). cy_alive (cycles (step lm v e) ! j) \<longrightarrow> j = k"
    using Cons.prems(1) by (simp add: c)
  from Cons.IH [OF this] Cons.prems(2) settled_step [OF Cons.prems(1) e]
  show ?case by (simp add: run_Cons)
qed

lemma last_trigger_final:
  fixes c :: coord and u :: "coord option" and fg :: flags
    and ns :: "search_request \<Rightarrow> search_outcome" and dm :: "dm_request \<Rightarrow> dm_outcome"
  assumes inv: "one_alive v0" and mp: "mapRef v0"
    and nt: "\<forall>e \<in> set post1 \<union> set post2. \<not> is_trigger e"
    and nr: "\<forall>e \<in> set post2. \<not> resolves (length (cycles (run lm v0 pre))) e"
  defines "k \<equiv> length (cycles (run lm v0 pre))"
  defines "vf \<equiv> run lm v0 (pre @ [DepsChanged True (Some c) u fg] @ post1 @
                          [Resolved (length (cycles (run lm v0 pre))) ns dm] @ post2)"
  defines "cy \<equiv> \<lparr>cy_alive = True, cy_center = c, cy_userLocation = u, cy_flags = fg\<rparr>"
  shows "stations (app vf) = (case fetch_and_enrich lm cy ns dm of Inr enriched \<Rightarrow> enriched | Inl _ \<Rightarrow> [])"
    and "listError (app vf) = (case fetch_and_enrich lm cy ns dm of Inr _ \<Rightarrow> [] | Inl _ \<Rightarrow> failure_message)"
    and "fetch_and_enrich lm cy ns dm = Inr enriched \<Longrightarrow> painted vf = enriched"
proof -
  let ?v1 = "run lm v0 pre"
  let ?v2 = "fetch_effect True (Some c) u fg ?v1"
  let ?v3 = "run lm ?v2 post1"
  let ?v4 = "fetchStations_resume lm k ns dm ?v3"
  have inv1: "one_alive ?v1" using inv by (rule one_alive_run)
  have mp1: "mapRef ?v1" using mp by (simp add: mapRef_run)
  note st = fetch_effect_starts [OF inv1 mp1, of c u fg, folded k_def cy_def]
  have c3: "cycles ?v3 = cycles ?v2" using nt by (simp add: cycles_run)
  have len3: "k < length (cycles ?v3)" using st(1) by (simp add: c3)
  have cy3: "cycles ?v3 ! k = cy" using st(2) by (simp add: c3)
  have only3: "\<forall>j < length (cycles ?v3). cy_alive (cycles ?v3 ! j) \<longrightarrow> j = k"
    using st(1) st(3) by (auto simp: c3 less_Suc_eq)
  have alive3: "cy_alive (cycles ?v3 ! k)" by (simp add: cy3 cy_def)
  have only4: "\<forall>j < length (cycles ?v4). cy_alive (cycles ?v4 ! j) \<longrightarrow> j = k"
    using only3 by (simp add: resume_keeps)
  have vf: "vf = run lm ?v4 post2"
    by (simp add: vf_def run_append run_Cons run_Nil k_def)
  have p2: "\<forall>e \<in> set post2. \<not> is_trigger e \<and> \<not> resolves k e"
    using nt nr by (simp add: k_def)
  note fin = settled_run [OF only4 p2]
  note res = current_resume [OF len3 alive3, of lm ns dm, unfolded cy3]
  show "stations (app vf) = (case fetch_and_enrich lm cy ns dm of Inr enriched \<Rightarrow> enriched | Inl _ \<Rightarrow> [])"
    using fin res(1) by (simp add: vf)
  show "listError (app vf) = (case fetch_and_enrich lm cy ns dm of Inr _ \<Rightarrow> [] | Inl _ \<Rightarrow> failure_message)"
    using fin res(2) by (simp add: vf)
  show "painted vf = enriched" if "fetch_and_enrich lm cy ns dm = Inr enriched"
    using fin res(3) [OF that] by (simp add: vf)
qed

text \<open>
  Claim C1. (1) When the provider answers a run that is not alive, nothing is published:
  the station list, the error and the markers stay as they are. (2) In every state
  reached from \<open>v0\<close>, a run that is alive is the current one (the one whose cleanup
  is registered). (3) When a triggering event starts run \<open>k\<close>, no later event starts
  another run, and run \<open>k\<close> is answered, then whatever else is answered before or
  after it (older runs, in any order) the final station list and error are those of
  run \<open>k\<close>'s result, and on success the painted places are its enriched list.
\<close>

theorem stale_cycles_discarded:
  fixes c :: coord and u :: "coord option" and fg :: flags
    and ns :: "search_request \<Rightarrow> search_outcome" and dm :: "dm_request \<Rightarrow> dm_outcome"
  assumes "one_alive v0" and "mapRef v0"
    and "\<forall>e \<in> set post1 \<union> set post2. \<not> is_trigger e"
    and "\<forall>e \<in> set post2. \<not> resolves (length (cycles (run lm v0 pre))) e"
  shows "(\<forall>n ns' dm' v. \<not> (n < length (cycles v) \<and> cy_alive (cycles v ! n)) \<longrightarrow>
            published (fetchStations_resume lm n ns' dm' v) = published v) \<and>
         (\<forall>es n. n < length (cycles (run lm v0 es)) \<and> cy_alive (cycles (run lm v0 es) ! n) \<longrightarrow>
            cleanup (run lm v0 es) = Some n) \<and>
         (let k = length (cycles (run lm v0 pre));
              cy = \<lparr>cy_alive = True, cy_center = c, cy_userLocation = u, cy_flags = fg\<rparr>;
              vf = run lm v0 (pre @ [DepsChanged True (Some c) u fg] @ post1 @
                             [Resolved k ns dm] @ post2)
          in stations (app vf) =
               (case fetch_and_enrich lm cy ns dm of Inr enriched \<Rightarrow> enriched | Inl _ \<Rightarrow> []) \<and>
             listError (app vf) =
               (case fetch_and_enrich lm cy ns dm of Inr _ \<Rightarrow> [] | Inl _ \<Rightarrow> failure_message) \<and>
             (\<forall>enriched. fetch_and_enrich lm cy ns dm = Inr enriched \<longrightarrow> painted vf = enriched))"
proof (intro conjI)
  show "\<forall>n ns' dm' v. \<not> (n < length (cycles v) \<and> cy_alive (cycles v ! n)) \<longrightarrow>
          published (fetchStations_resume lm n ns' dm' v) = published v"
    using stale_resume by blast
  show "\<forall>es n. n < length (cycles (run lm v0 es)) \<and> cy_alive (cycles (run lm v0 es) ! n) \<longrightarrow>
          cleanup (run lm v0 es) = Some n"
    using one_alive_run [OF assms(1)] by (simp add: one_alive_iff)
  show "let k = length (cycles (run lm v0 pre));
            cy = \<lparr>cy_alive = True, cy_center = c, cy_userLocation = u, cy_flags = fg\<rparr>;
            vf = run lm v0 (pre @ [DepsChanged True (Some c) u fg] @ post1 @
                           [Resolved k ns dm] @ post2)
        in stations (app vf) =
             (case fetch_and_enrich lm cy ns dm of Inr enriched \<Rightarrow> enriched | Inl _ \<Rightarrow> []) \<and>
           listError (app vf) =
             (case fetch_and_enrich lm cy ns dm of Inr _ \<Rightarrow> [] | Inl _ \<Rightarrow> failure_message) \<and>
           (\<forall>enriched. fetch_and_enrich lm cy ns dm = Inr enriched \<longrightarrow> painted vf = enriched)"
    unfolding Let_def
    using last_trigger_final [OF assms, of c u fg ns dm] by blast
qed

lemma station_ids: "place_id station_a = ''a''" "place_id station_b = ''b''"
  by (simp_all add: station_a_def station_b_def)

lemma one_alive_init: "one_alive init_view"
  by (simp add: one_alive_iff init_view_def)

lemma cycles_first_run:
  "length (cycles (run sample_libm init_view [DepsChanged True (Some origin0) None Map.empty])) = 1"
  by (simp add: run_def fetch_effect_def run_cleanup_def init_view_def Let_def)

lemma fetch_station_a:
  "fetch_and_enrich sample_libm \<lparr>cy_alive = True, cy_center = origin0, cy_userLocation = Some origin0,
                      cy_flags = Map.empty\<rparr> (search_ok [station_a]) dm_down =
     Inr [enrich_haversine sample_libm (Some origin0) station_a]"
  by (simp add: fetch_and_enrich_def searchNearbyGasStations_def search_ok_def
      computeDistancesIfEnabled_def haversine_fallback_def first_origin_def)

theorem stale_cycles_discarded_witness:
  "one_alive init_view \<and> mapRef init_view \<and>
   map place_id (stations (app (run sample_libm init_view
     [DepsChanged True (Some origin0) None Map.empty,
      DepsChanged True (Some origin0) (Some origin0) Map.empty,
      Resolved 1 (search_ok [station_a]) dm_down,
      Resolved 0 (search_ok [station_b]) dm_down,
      SelectionChanged True (Some ''a'')]))) = [''a''] \<and>
   map place_id (painted (run sample_libm init_view
     [DepsChanged True (Some origin0) None Map.empty,
      DepsChanged True (Some origin0) (Some origin0) Map.empty,
      Resolved 1 (search_ok [station_a]) dm_down,
      Resolved 0 (search_ok [station_b]) dm_down,
      SelectionChanged True (Some ''a'')])) = [''a'']"
proof -
  have m: "mapRef init_view" by (simp add: init_view_def)
  have a: "\<forall>e \<in> set [] \<union> set [Resolved 0 (search_ok [station_b]) dm_down,
                                  SelectionChanged True (Some ''a'')]. \<not> is_trigger e"
    by simp
  have b: "\<forall>e \<in> set [Resolved 0 (search_ok [station_b]) dm_down,
                        SelectionChanged True (Some ''a'')].
             \<not> resolves (length (cycles (run sample_libm init_view
                  [DepsChanged True (Some origin0) None Map.empty]))) e"
    by (simp add: cycles_first_run)
  from stale_cycles_discarded [OF one_alive_init m a b, of origin0 "Some origin0" Map.empty
      "search_ok [station_a]" dm_down]
  show ?thesis
    using one_alive_init m
    by (simp add: Let_def cycles_first_run fetch_station_a enrich_haversine_keeps station_ids)
qed

text \<open>
  Claim C2, as stated, fails: after a first run has published station \<open>a\<close>, a second
  run whose place query fails leaves the application with the empty station list.
\<close>

theorem failed_cycle_empties_counterexample:
  "map place_id (stations (app (run sample_libm init_view
     [DepsChanged True (Some origin0) None Map.empty,
      Resolved 0 (search_ok [station_a]) dm_down]))) = [''a''] \<and>
   stations (app (run sample_libm init_view
     [DepsChanged True (Some origin0) None Map.empty,
      Resolved 0 (search_ok [station_a]) dm_down,
      DepsChanged True (Some origin0) None Map.empty,
      Resolved 1 search_down dm_down])) = []"
  by (simp add: run_def fetch_effect_def run_cleanup_def init_view_def Let_def
      fetchStations_resume_def fetch_and_enrich_def searchNearbyGasStations_def search_ok_def
      search_down_def computeDistancesIfEnabled_def haversine_fallback_def first_origin_def
      handleStationsUpdate_def paint_keeps enrich_haversine_keeps station_a_def)

theorem failed_cycle_publishes_empty_witness:
  "listError (app (fetchStations_resume sample_libm 0 search_down dm_down
      (fetch_effect True (Some origin0) None Map.empty init_view))) = failure_message \<and>
   stations (app (fetchStations_resume sample_libm 0 search_down dm_down
      (fetch_effect True (Some origin0) None Map.empty init_view))) = []"
  using failed_cycle_publishes_empty [of 0 "fetch_effect True (Some origin0) None Map.empty init_view"
      search_down PlacesNearbySearchFailed sample_libm dm_down]
  by (simp add: fetch_effect_def run_cleanup_def init_view_def Let_def
      searchNearbyGasStations_def search_down_def)

end
